theory Spec2Isabelle
  imports Complex_Main "HOL-Library.AList" "HOL-Library.Sublist"
begin

section \<open>Python values shared by the scripts\<close>

text \<open>
  The scripts compute on Python floats, unbounded integers, strings, lists and
  insertion-ordered dictionaries.  Floats are modelled by the real numbers they denote
  (comparison, addition, multiplication and division are then exact), integers by
  \<^typ>\<open>int\<close>, a dictionary by an association list in insertion order, a key that may be
  absent from a JSON object by an \<^typ>\<open>'a option\<close> field, and every exception the modelled
  code can raise by a value of \<open>py_error\<close>.
\<close>

datatype py_error = IndexError | KeyError | ZeroDivisionError

text \<open>\<^verbatim>\<open>d.get(key, default)\<close> on a field that may be absent.\<close>

definition dict_get :: "'a option \<Rightarrow> 'a \<Rightarrow> 'a" where
  "dict_get field dflt = (case field of None \<Rightarrow> dflt | Some v \<Rightarrow> v)"

text \<open>
  \<^verbatim>\<open>round(x, ndigits)\<close> on a float: the nearest multiple of \<open>10^-ndigits\<close>, a tie going
  to the even multiple.
\<close>

definition py_round :: "real \<Rightarrow> nat \<Rightarrow> real" where
  "py_round x ndigits =
     (let y = x * 10 ^ ndigits;
          f = \<lfloor>y\<rfloor>;
          r = y - of_int f
      in of_int (if r < 1 / 2 then f
                 else if 1 / 2 < r then f + 1
                 else if even f then f else f + 1) / 10 ^ ndigits)"

section \<open>calculate-process-maturity.py\<close>

subsection \<open>score_dimension\<close>

text \<open>
  The \<^verbatim>\<open>for threshold, score in thresholds\<close> loop: the score of the first pair with
  \<^verbatim>\<open>value <= threshold\<close>, or \<open>None\<close> when the loop falls through.
\<close>

fun scan_thresholds :: "real \<Rightarrow> (real \<times> int) list \<Rightarrow> int option" where
  "scan_thresholds v [] = None"
| "scan_thresholds v ((threshold, score) # rest) =
     (if v \<le> threshold then Some score else scan_thresholds v rest)"

text \<open>
  After the loop the source reads \<^verbatim>\<open>thresholds[-1][1]\<close>, which raises IndexError on an
  empty list.
\<close>

definition score_dimension :: "real \<Rightarrow> (real \<times> int) list \<Rightarrow> py_error + int" where
  "score_dimension v thresholds =
     (case scan_thresholds v thresholds of
        Some score \<Rightarrow> Inr score
      | None \<Rightarrow> (if thresholds = [] then Inl IndexError
                 else Inr (snd (last thresholds))))"

text \<open>The data model's validity condition of a threshold table.\<close>

definition valid_thresholds :: "(real \<times> int) list \<Rightarrow> bool" where
  "valid_thresholds ths \<longleftrightarrow>
     ths \<noteq> [] \<and> sorted_wrt (<) (map fst ths) \<and> sorted (map snd ths)"

subsection \<open>calculate_maturity\<close>

text \<open>
  The six \<^verbatim>\<open>getValue\<close> functions read files and the git log; each returns a pair of a
  raw value and a detail string.  The model names them and takes their results from an
  environment.
\<close>

datatype metric_source =
    Get_delegation_compliance
  | Get_error_recurrence_rate
  | Get_documentation_coverage
  | Get_test_coverage
  | Get_context_freshness
  | Get_hook_adoption_rate

record dimension =
  dim_name :: string
  dim_weight :: real
  dim_getValue :: metric_source
  dim_thresholds :: "(real \<times> int) list"

record dimension_result =
  res_dimension :: string
  res_value :: real
  res_score :: int
  res_weight :: real
  res_detail :: string

record maturity_report =
  overallScore :: real
  trend :: string
  dimension_results :: "dimension_result list"
  calculatedAt :: string

definition fifths :: "(real \<times> int) list" where
  "fifths = [(0.20, 2), (0.40, 4), (0.60, 6), (0.80, 8), (1.00, 10)]"

definition dimensions :: "dimension list" where
  "dimensions =
    [\<lparr>dim_name = ''Delegation Compliance'', dim_weight = 0.25,
      dim_getValue = Get_delegation_compliance, dim_thresholds = fifths\<rparr>,
     \<lparr>dim_name = ''Error Recurrence'', dim_weight = 0.20,
      dim_getValue = Get_error_recurrence_rate, dim_thresholds = fifths\<rparr>,
     \<lparr>dim_name = ''Documentation Coverage'', dim_weight = 0.15,
      dim_getValue = Get_documentation_coverage,
      dim_thresholds = [(0.40, 2), (0.60, 4), (0.75, 6), (0.90, 8), (1.00, 10)]\<rparr>,
     \<lparr>dim_name = ''Test Coverage'', dim_weight = 0.15,
      dim_getValue = Get_test_coverage,
      dim_thresholds = [(0.60, 2), (0.70, 4), (0.80, 6), (0.90, 8), (1.00, 10)]\<rparr>,
     \<lparr>dim_name = ''Context Freshness'', dim_weight = 0.15,
      dim_getValue = Get_context_freshness, dim_thresholds = fifths\<rparr>,
     \<lparr>dim_name = ''Hook Adoption'', dim_weight = 0.10,
      dim_getValue = Get_hook_adoption_rate, dim_thresholds = fifths\<rparr>]"

text \<open>
  The \<^verbatim>\<open>for dim in dimensions\<close> loop, with its two accumulators \<^verbatim>\<open>results\<close> and
  \<^verbatim>\<open>total_score\<close>; an exception of \<open>score_dimension\<close> ends it.
\<close>

fun score_loop ::
  "(metric_source \<Rightarrow> real \<times> string) \<Rightarrow> dimension list \<Rightarrow> dimension_result list \<Rightarrow> real
     \<Rightarrow> py_error + (dimension_result list \<times> real)" where
  "score_loop env [] results total_score = Inr (results, total_score)"
| "score_loop env (dm # dims) results total_score =
     (case env (dim_getValue dm) of (v, detail) \<Rightarrow>
        (case score_dimension v (dim_thresholds dm) of
           Inl e \<Rightarrow> Inl e
         | Inr score \<Rightarrow>
             score_loop env dims
               (results @ [\<lparr>res_dimension = dim_name dm, res_value = v, res_score = score,
                            res_weight = dim_weight dm, res_detail = detail\<rparr>])
               (total_score + of_int score * dim_weight dm)))"

text \<open>
  The body of \<open>calculate_maturity\<close> over a given list of dimensions; \<open>now\<close> is the text
  of \<^verbatim>\<open>datetime.now().isoformat()\<close>.
\<close>

definition calculate_maturity_of ::
  "dimension list \<Rightarrow> (metric_source \<Rightarrow> real \<times> string) \<Rightarrow> string
     \<Rightarrow> py_error + maturity_report" where
  "calculate_maturity_of dims env now =
     (case score_loop env dims [] 0 of
        Inl e \<Rightarrow> Inl e
      | Inr (results, total_score) \<Rightarrow>
          Inr \<lparr>overallScore = py_round total_score 1, trend = ''stable'',
               dimension_results = results, calculatedAt = now @ ''Z''\<rparr>)"

definition calculate_maturity ::
  "(metric_source \<Rightarrow> real \<times> string) \<Rightarrow> string \<Rightarrow> py_error + maturity_report" where
  "calculate_maturity = calculate_maturity_of dimensions"

subsection \<open>get_maturity_level\<close>

definition get_maturity_level :: "real \<Rightarrow> string \<times> string" where
  "get_maturity_level score =
     (if score < 2.0 then (''Critical'', ''Immediate intervention needed'')
      else if score < 4.0 then (''Poor'', ''Significant gaps, high risk'')
      else if score < 6.0 then (''Fair'', ''Basic processes in place'')
      else if score < 8.0 then (''Good'', ''Solid foundation, room to grow'')
      else (''Excellent'', ''Mature, optimized system''))"

section \<open>analyze-command-usage.py\<close>

subsection \<open>The stored usage data\<close>

text \<open>
  The JSON object kept in \<^verbatim>\<open>command-usage.json\<close>.  The scripts read most keys with
  \<^verbatim>\<open>.get\<close> and a default, so a key that may be missing is an option field.
\<close>

record command_info =
  invocations :: "int option"
  lastUsed :: "string option"
  avgSuccessRate :: "real option"
  recommendationsMade :: "int option"
  adoptionRate :: "real option"

record redundancy =
  red_commands :: "string list"
  red_reason :: string
  red_suggestion :: string

record chaining =
  chain_sequence :: "string list"
  chain_frequency :: string
  chain_suggestion :: string

record insights =
  mostUsedCommands :: "string list"
  leastUsedCommands :: "string list"
  redundantCommands :: "redundancy list"
  chainingOpportunities :: "chaining list"
  confusionPatterns :: "string list"

record recommendation =
  rec_priority :: string
  rec_category :: string
  rec_issue :: string
  rec_commands :: "string list option"
  rec_suggestion :: string

record tracking_period =
  tp_start :: string
  tp_end :: string
  tp_days :: int

record usage_data =
  commands :: "(string \<times> command_info) list option"
  insights :: "insights option"
  recommendations :: "recommendation list option"
  trackingPeriod :: "tracking_period option"
  lastUpdated :: "string option"

subsection \<open>Text formatting\<close>

definition digit_char :: "nat \<Rightarrow> char" where
  "digit_char n = ''0123456789'' ! n"

fun str_nat :: "nat \<Rightarrow> string" where
  "str_nat n = (if n < 10 then [digit_char n] else str_nat (n div 10) @ [digit_char (n mod 10)])"

declare str_nat.simps [simp del]

text \<open>
  \<^verbatim>\<open>f"{x:.0f}"\<close>: the value rounded to an integer (ties to even), with the sign of the
  value.
\<close>

definition format_0f :: "real \<Rightarrow> string" where
  "format_0f x =
     (let k = py_round x 0 in
      if x < 0 then ''-'' @ str_nat (nat \<lfloor>- k\<rfloor>) else str_nat (nat \<lfloor>k\<rfloor>))"

subsection \<open>load_command_data\<close>

text \<open>What \<open>load_command_data\<close> returns when the file does not exist yet.\<close>

definition load_command_data_default :: usage_data where
  "load_command_data_default =
     \<lparr>commands = Some [],
      insights = Some \<lparr>mostUsedCommands = [], leastUsedCommands = [], redundantCommands = [],
                       chainingOpportunities = [], confusionPatterns = []\<rparr>,
      recommendations = Some [], trackingPeriod = None, lastUpdated = None\<rparr>"

subsection \<open>analyze_usage_patterns\<close>

definition get_invocations :: "command_info \<Rightarrow> int" where
  "get_invocations info = dict_get (invocations info) 0"

definition find_redundant_commands :: "(string \<times> command_info) list \<Rightarrow> redundancy list" where
  "find_redundant_commands cmds =
     (let redundant = [];
          local_commands =
            filter (\<lambda>(cmd, info). prefix ''/local-'' cmd \<and> get_invocations info < 5) cmds;
          redundant =
            (if length local_commands \<ge> 2
             then redundant @
               [\<lparr>red_commands = map fst local_commands,
                 red_reason = ''Multiple /local-* commands with low usage, consider consolidation'',
                 red_suggestion = ''Merge into /delegate-auto with auto-routing''\<rparr>]
             else redundant);
          process_commands =
            filter (\<lambda>(cmd, info). prefix ''/process-'' cmd \<and> get_invocations info < 3) cmds
      in if length process_commands \<ge> 3
         then redundant @
           [\<lparr>red_commands = map fst process_commands,
             red_reason = ''Multiple specialized process commands rarely used'',
             red_suggestion = ''Consider consolidating related functions''\<rparr>]
         else redundant)"

definition find_chaining_opportunities :: "(string \<times> command_info) list \<Rightarrow> chaining list" where
  "find_chaining_opportunities cmds =
     [\<lparr>chain_sequence = [''/project start'', ''/gen-tests'', ''/review''],
       chain_frequency = ''unknown'',
       chain_suggestion = ''Consider /project-init-with-tests macro''\<rparr>,
      \<lparr>chain_sequence = [''/local-code'', ''npm test'', ''/review''],
       chain_frequency = ''unknown'',
       chain_suggestion = ''Already automated via execute-local-task.sh''\<rparr>]"

text \<open>
  \<^verbatim>\<open>usage_counts.sort(key=lambda x: x[1], reverse=True)\<close> is a stable sort by descending
  count: entries with equal counts keep their dictionary order.  \<^const>\<open>sort_key\<close> is a
  stable insertion sort, here on the negated count.
\<close>

definition analyze_usage_patterns :: "usage_data \<Rightarrow> usage_data" where
  "analyze_usage_patterns data =
     (let cmds = dict_get (commands data) [];
          usage_counts = map (\<lambda>(cmd, info). (cmd, get_invocations info)) cmds;
          usage_counts = sort_key (\<lambda>x. - snd x) usage_counts;
          most_used = map fst (filter (\<lambda>(cmd, count). count > 0) (take 5 usage_counts));
          least_used = map fst (filter (\<lambda>(cmd, count). count = 0) usage_counts);
          redundant = find_redundant_commands cmds;
          chaining = find_chaining_opportunities cmds
      in data\<lparr>insights := Some
           \<lparr>mostUsedCommands = most_used, leastUsedCommands = least_used,
            redundantCommands = redundant, chainingOpportunities = chaining,
            confusionPatterns = []\<rparr>\<rparr>)"

subsection \<open>generate_recommendations (command usage)\<close>

text \<open>The loop over \<^verbatim>\<open>commands.items()\<close> that promotes rarely used, successful commands.\<close>

fun promotion_loop :: "(string \<times> command_info) list \<Rightarrow> recommendation list \<Rightarrow> recommendation list"
  where
  "promotion_loop [] recs = recs"
| "promotion_loop ((cmd, info) # rest) recs =
     (let invs = get_invocations info;
          success_rate = dict_get (avgSuccessRate info) 0.0
      in if invs < 5 \<and> success_rate > 0.8
         then promotion_loop rest (recs @
           [\<lparr>rec_priority = ''medium'', rec_category = ''promotion'',
             rec_issue = cmd @ '' highly successful but rarely used'',
             rec_commands = None,
             rec_suggestion = ''Better documentation or automatic suggestions''\<rparr>])
         else promotion_loop rest recs)"

text \<open>\<^verbatim>\<open>commands.get("/route", {}).get(key, default)\<close>.\<close>

definition route_get :: "(string \<times> command_info) list \<Rightarrow> (command_info \<Rightarrow> 'a option) \<Rightarrow> 'a \<Rightarrow> 'a"
  where
  "route_get cmds field dflt =
     (case map_of cmds ''/route'' of None \<Rightarrow> dflt | Some info \<Rightarrow> dict_get (field info) dflt)"

definition generate_recommendations_usage :: "usage_data \<Rightarrow> usage_data" where
  "generate_recommendations_usage data =
     (let recs = [];
          cmds = dict_get (commands data) [];
          least_used = (case insights data of None \<Rightarrow> [] | Some i \<Rightarrow> leastUsedCommands i);
          recs =
            (if least_used \<noteq> []
             then recs @
               [\<lparr>rec_priority = ''low'', rec_category = ''cleanup'',
                 rec_issue = str_nat (length least_used) @ '' commands never used in 30 days'',
                 rec_commands = Some least_used,
                 rec_suggestion = ''Review for deprecation or better promotion''\<rparr>]
             else recs);
          redundant = (case insights data of None \<Rightarrow> [] | Some i \<Rightarrow> redundantCommands i);
          recs = recs @
            map (\<lambda>redundancy.
                  \<lparr>rec_priority = ''medium'', rec_category = ''consolidation'',
                   rec_issue = red_reason redundancy,
                   rec_commands = Some (red_commands redundancy),
                   rec_suggestion = red_suggestion redundancy\<rparr>) redundant;
          recs =
            (if route_get cmds recommendationsMade 0 > 0
             then (let adoption = route_get cmds adoptionRate 0.0
                   in if adoption < 0.3
                      then recs @
                        [\<lparr>rec_priority = ''high'', rec_category = ''adoption'',
                          rec_issue = ''/route recommendations only followed ''
                            @ format_0f (adoption * 100) @ ''% of time'',
                          rec_commands = None,
                          rec_suggestion =
                            ''Improve specificity of routing advice or reduce noise''\<rparr>]
                      else recs)
             else recs);
          recs = promotion_loop cmds recs
      in data\<lparr>recommendations := Some recs\<rparr>)"

text \<open>
  \<open>analyze_command_usage\<close> on the data that \<open>load_command_data\<close> returned; \<open>now\<close> is the
  text of \<^verbatim>\<open>datetime.now().isoformat()\<close>.  The result is what the function saves and
  returns.
\<close>

definition analyze_command_usage :: "string \<Rightarrow> usage_data \<Rightarrow> usage_data" where
  "analyze_command_usage now data =
     (let data = analyze_usage_patterns data;
          data = generate_recommendations_usage data
      in data\<lparr>lastUpdated := Some (now @ ''Z'')\<rparr>)"

subsection \<open>update_command_usage\<close>

text \<open>
  The function on the data that \<open>load_command_data\<close> returned, giving the data it saves.
  \<open>now k\<close> is the text of the \<open>k\<close>-th call of \<^verbatim>\<open>datetime.now().isoformat()\<close>.
  \<^verbatim>\<open>data["commands"]\<close> raises KeyError when the key is missing, and the division raises
  ZeroDivisionError when the incremented count is zero.
\<close>

definition fresh_command :: command_info where
  "fresh_command =
     \<lparr>invocations = Some 0, lastUsed = None, avgSuccessRate = Some 0.0,
      recommendationsMade = None, adoptionRate = None\<rparr>"

definition update_command_usage ::
  "(nat \<Rightarrow> string) \<Rightarrow> string \<Rightarrow> bool \<Rightarrow> usage_data \<Rightarrow> py_error + usage_data" where
  "update_command_usage now command success data =
     (case commands data of
        None \<Rightarrow> Inl KeyError
      | Some cmds \<Rightarrow>
         (let cmds = (if command \<notin> fst ` set cmds
                      then AList.update command fresh_command cmds else cmds)
          in case map_of cmds command of
               None \<Rightarrow> Inl KeyError
             | Some cmd_data \<Rightarrow>
                (let cmd_data = cmd_data\<lparr>invocations := Some (get_invocations cmd_data + 1)\<rparr>;
                     cmd_data = cmd_data\<lparr>lastUsed := Some (now 0 @ ''Z'')\<rparr>;
                     current_rate = dict_get (avgSuccessRate cmd_data) 0.5;
                     invs = get_invocations cmd_data
                 in if invs = 0 then Inl ZeroDivisionError
                    else
                     (let new_rate =
                            (current_rate * of_int (invs - 1) + (if success then 1.0 else 0.0))
                              / of_int invs;
                          cmd_data = cmd_data\<lparr>avgSuccessRate := Some (py_round new_rate 2)\<rparr>;
                          cmds = AList.update command cmd_data cmds;
                          period =
                            (case trackingPeriod data of
                               None \<Rightarrow>
                                 \<lparr>tp_start = now 1 @ ''Z'', tp_end = now 3 @ ''Z'', tp_days = 0\<rparr>
                             | Some tp \<Rightarrow> tp\<lparr>tp_end := now 1 @ ''Z''\<rparr>)
                      in Inr (data\<lparr>commands := Some cmds, trackingPeriod := Some period\<rparr>)))))"

text \<open>
  Recording a sequence of outcomes for one command, one call after the other, each call
  loading what the previous one saved.
\<close>

fun record_outcomes ::
  "(nat \<Rightarrow> string) \<Rightarrow> string \<Rightarrow> bool list \<Rightarrow> usage_data \<Rightarrow> py_error + usage_data" where
  "record_outcomes now command [] data = Inr data"
| "record_outcomes now command (s # ss) data =
     (case update_command_usage now command s data of
        Inl e \<Rightarrow> Inl e
      | Inr data' \<Rightarrow> record_outcomes now command ss data')"

text \<open>The stored statistics of a command, when it has an entry.\<close>

definition stored_info :: "usage_data \<Rightarrow> string \<Rightarrow> command_info option" where
  "stored_info data command = map_of (dict_get (commands data) []) command"

section \<open>analyze-subagent-effectiveness.py\<close>

subsection \<open>The models mapping\<close>

record type_stats =
  attempted :: int
  succeeded :: int
  type_firstPassRate :: "real option"

record model_data =
  tasksAttempted :: "int option"
  tasksSucceeded :: "int option"
  taskTypes :: "(string \<times> type_stats) list option"
  commonFailures :: "string list"
  firstPassRate :: "real option"
  avgTokensUsed :: "int option"
  totalTokensUsed :: "int option"

type_synonym models = "(string \<times> model_data) list"

text \<open>
  \<^verbatim>\<open>x or "insufficient_data"\<close>, for \<open>x\<close> a string or \<^verbatim>\<open>None\<close>: the empty string counts as
  false, like \<^verbatim>\<open>None\<close>.
\<close>

definition or_insufficient_data :: "string option \<Rightarrow> string" where
  "or_insufficient_data x =
     (case x of None \<Rightarrow> ''insufficient_data''
      | Some s \<Rightarrow> (if s \<noteq> [] then s else ''insufficient_data''))"

subsection \<open>generate_recommendations (model comparison)\<close>

text \<open>
  The inner loop over \<^verbatim>\<open>models.items()\<close> for one task type, with its accumulators
  \<^verbatim>\<open>best_model\<close> and \<^verbatim>\<open>best_rate\<close>.
\<close>

fun best_for_loop :: "string \<Rightarrow> models \<Rightarrow> string option \<Rightarrow> real \<Rightarrow> string option \<times> real" where
  "best_for_loop task_type [] best_model best_rate = (best_model, best_rate)"
| "best_for_loop task_type ((model, md) # rest) best_model best_rate =
     (case map_of (dict_get (taskTypes md) []) task_type of
        None \<Rightarrow> best_for_loop task_type rest best_model best_rate
      | Some stats \<Rightarrow>
          (let rate = dict_get (type_firstPassRate stats) 0.0
           in if rate > best_rate then best_for_loop task_type rest (Some model) rate
              else best_for_loop task_type rest best_model best_rate))"

text \<open>The outer loop over the task types, writing the \<^verbatim>\<open>bestFor_<type>\<close> entries.\<close>

fun best_for_all :: "string list \<Rightarrow> models \<Rightarrow> (string \<times> string) list \<Rightarrow> (string \<times> string) list"
  where
  "best_for_all [] ms recs = recs"
| "best_for_all (task_type # rest) ms recs =
     (case fst (best_for_loop task_type ms None 0.0) of
        None \<Rightarrow> best_for_all rest ms recs
      | Some best_model \<Rightarrow>
          (if best_model \<noteq> []
           then best_for_all rest ms (AList.update (''bestFor_'' @ task_type) best_model recs)
           else best_for_all rest ms recs))"

text \<open>
  The token-efficiency loop.  \<^verbatim>\<open>float("inf")\<close> is \<open>None\<close>: a missing average and the
  initial minimum.
\<close>

definition less_inf :: "int \<Rightarrow> int option \<Rightarrow> bool" where
  "less_inf a b = (case b of None \<Rightarrow> True | Some y \<Rightarrow> a < y)"

fun efficient_loop :: "models \<Rightarrow> int option \<Rightarrow> string option \<Rightarrow> int option \<times> string option" where
  "efficient_loop [] min_tokens most_efficient = (min_tokens, most_efficient)"
| "efficient_loop ((model, md) # rest) min_tokens most_efficient =
     (case avgTokensUsed md of
        None \<Rightarrow> efficient_loop rest min_tokens most_efficient
      | Some avg_tokens \<Rightarrow>
          (if 0 < avg_tokens \<and> less_inf avg_tokens min_tokens
                \<and> dict_get (tasksAttempted md) 0 > 0
           then efficient_loop rest (Some avg_tokens) (Some model)
           else efficient_loop rest min_tokens most_efficient))"

text \<open>The quality loop, with its gate \<^verbatim>\<open>tasksAttempted > 5\<close>.\<close>

fun quality_loop :: "models \<Rightarrow> real \<Rightarrow> string option \<Rightarrow> real \<times> string option" where
  "quality_loop [] best_quality highest_quality = (best_quality, highest_quality)"
| "quality_loop ((model, md) # rest) best_quality highest_quality =
     (let rate = dict_get (firstPassRate md) 0.0
      in if rate > best_quality \<and> dict_get (tasksAttempted md) 0 > 5
         then quality_loop rest rate (Some model)
         else quality_loop rest best_quality highest_quality)"

text \<open>
  The source collects the task types in a \<^verbatim>\<open>set\<close> and iterates over it; Python leaves the
  order of that iteration open.  \<open>generate_recommendations_in\<close> is the function for a
  given enumeration of the set, and \<open>generate_recommendations\<close> takes the enumeration by
  first occurrence.  Each task type writes its own key, so the entries do not depend on
  the order.
\<close>

definition task_types :: "models \<Rightarrow> string list" where
  "task_types ms = remdups (concat (map (\<lambda>(model, md). map fst (dict_get (taskTypes md) [])) ms))"

definition generate_recommendations_in :: "string list \<Rightarrow> models \<Rightarrow> (string \<times> string) list" where
  "generate_recommendations_in types ms =
     (let recs = best_for_all types ms [];
          most_efficient = snd (efficient_loop ms None None);
          recs = AList.update ''mostTokenEfficient'' (or_insufficient_data most_efficient) recs;
          highest_quality = snd (quality_loop ms 0.0 None)
      in AList.update ''highestQuality'' (or_insufficient_data highest_quality) recs)"

definition generate_recommendations :: "models \<Rightarrow> (string \<times> string) list" where
  "generate_recommendations ms = generate_recommendations_in (task_types ms) ms"

section \<open>Auxiliary notions\<close>

text \<open>The integer that \<open>py_round\<close> divides by the power of ten.\<close>

definition round_digit :: "real \<Rightarrow> int" where
  "round_digit y = (let f = \<lfloor>y\<rfloor>; r = y - of_int f in
      if r < 1 / 2 then f else if 1 / 2 < r then f + 1 else if even f then f else f + 1)"

text \<open>The result of \<open>score_dimension\<close> on a non-empty table.\<close>

definition clamp_score :: "real \<Rightarrow> (real \<times> int) list \<Rightarrow> int" where
  "clamp_score v ths = (case scan_thresholds v ths of Some s \<Rightarrow> s | None \<Rightarrow> snd (last ths))"

text \<open>The summand \<^verbatim>\<open>score * dim["weight"]\<close> of a scored dimension.\<close>

definition weighted :: "dimension_result \<Rightarrow> real" where
  "weighted r = of_int (res_score r) * res_weight r"

text \<open>\<^verbatim>\<open>model_data.get("tasksAttempted", 0)\<close>.\<close>

definition attempts :: "model_data \<Rightarrow> int" where
  "attempts md = dict_get (tasksAttempted md) 0"

text \<open>
  \<^verbatim>\<open>model_data["taskTypes"][task_type].get("firstPassRate", 0.0)\<close>, when the model has an
  entry for the task type.
\<close>

definition type_rate :: "model_data \<Rightarrow> string \<Rightarrow> real option" where
  "type_rate md task_type =
     map_option (\<lambda>stats. dict_get (type_firstPassRate stats) 0.0)
       (map_of (dict_get (taskTypes md) []) task_type)"

text \<open>
  The order the specification asks of the recommendations: by descending priority, high
  before medium before low.
\<close>

definition priority_rank :: "string \<Rightarrow> nat" where
  "priority_rank p = (if p = ''high'' then 3 else if p = ''medium'' then 2 else 1)"

definition priority_descending :: "recommendation list \<Rightarrow> bool" where
  "priority_descending recs =
     sorted_wrt (\<lambda>p q. priority_rank q \<le> priority_rank p) (map rec_priority recs)"

text \<open>The conditions under which \<open>generate_recommendations\<close> appends a recommendation.\<close>

definition never_used :: "(string \<times> command_info) list \<Rightarrow> bool" where
  "never_used cmds = list_ex (\<lambda>(cmd, info). get_invocations info = 0) cmds"

definition low_adoption :: "(string \<times> command_info) list \<Rightarrow> bool" where
  "low_adoption cmds \<longleftrightarrow>
     route_get cmds recommendationsMade 0 > 0 \<and> route_get cmds adoptionRate 0.0 < 0.3"

definition promotable :: "command_info \<Rightarrow> bool" where
  "promotable info \<longleftrightarrow> get_invocations info < 5 \<and> dict_get (avgSuccessRate info) 0.0 > 0.8"

text \<open>
  The recommendations \<open>generate_recommendations\<close> appends, one definition for each
  dictionary literal of the source, and the commands they are about: the commands with 0
  invocations and the rarely used, highly successful ones, both in the order of the
  mapping.
\<close>

definition unused_commands :: "(string \<times> command_info) list \<Rightarrow> string list" where
  "unused_commands cmds = map fst (filter (\<lambda>(cmd, info). get_invocations info = 0) cmds)"

definition promotable_commands :: "(string \<times> command_info) list \<Rightarrow> string list" where
  "promotable_commands cmds = map fst (filter (\<lambda>(cmd, info). promotable info) cmds)"

definition cleanup_recommendation :: "string list \<Rightarrow> recommendation" where
  "cleanup_recommendation least_used =
     \<lparr>rec_priority = ''low'', rec_category = ''cleanup'',
      rec_issue = str_nat (length least_used) @ '' commands never used in 30 days'',
      rec_commands = Some least_used,
      rec_suggestion = ''Review for deprecation or better promotion''\<rparr>"

definition consolidation_recommendation :: "redundancy \<Rightarrow> recommendation" where
  "consolidation_recommendation redundancy =
     \<lparr>rec_priority = ''medium'', rec_category = ''consolidation'',
      rec_issue = red_reason redundancy,
      rec_commands = Some (red_commands redundancy),
      rec_suggestion = red_suggestion redundancy\<rparr>"

definition adoption_recommendation :: "real \<Rightarrow> recommendation" where
  "adoption_recommendation adoption =
     \<lparr>rec_priority = ''high'', rec_category = ''adoption'',
      rec_issue = ''/route recommendations only followed ''
         @ format_0f (adoption * 100) @ ''% of time'',
      rec_commands = None,
      rec_suggestion = ''Improve specificity of routing advice or reduce noise''\<rparr>"

definition promotion_recommendation :: "string \<Rightarrow> recommendation" where
  "promotion_recommendation cmd =
     \<lparr>rec_priority = ''medium'', rec_category = ''promotion'',
      rec_issue = cmd @ '' highly successful but rarely used'',
      rec_commands = None,
      rec_suggestion = ''Better documentation or automatic suggestions''\<rparr>"

text \<open>
  The entry \<open>update_command_usage\<close> starts from (the stored one, or the fresh one it
  creates), the stored count, and the entry and tracking period it writes.
\<close>

definition prior_info :: "(string \<times> command_info) list \<Rightarrow> string \<Rightarrow> command_info" where
  "prior_info cmds command =
     (case map_of cmds command of None \<Rightarrow> fresh_command | Some info \<Rightarrow> info)"

definition stored_invocations :: "(string \<times> command_info) list \<Rightarrow> string \<Rightarrow> int" where
  "stored_invocations cmds command =
     (case map_of cmds command of None \<Rightarrow> 0 | Some info \<Rightarrow> get_invocations info)"

definition outcome_value :: "bool \<Rightarrow> real" where
  "outcome_value success = (if success then 1.0 else 0.0)"

definition updated_info :: "(nat \<Rightarrow> string) \<Rightarrow> bool \<Rightarrow> command_info \<Rightarrow> command_info" where
  "updated_info now success info =
     info\<lparr>invocations := Some (get_invocations info + 1),
          lastUsed := Some (now 0 @ ''Z''),
          avgSuccessRate := Some (py_round
            ((dict_get (avgSuccessRate info) 0.5 * of_int (get_invocations info)
               + outcome_value success) / of_int (get_invocations info + 1)) 2)\<rparr>"

definition updated_period :: "(nat \<Rightarrow> string) \<Rightarrow> usage_data \<Rightarrow> tracking_period" where
  "updated_period now data =
     (case trackingPeriod data of
        None \<Rightarrow> \<lparr>tp_start = now 1 @ ''Z'', tp_end = now 3 @ ''Z'', tp_days = 0\<rparr>
      | Some tp \<Rightarrow> tp\<lparr>tp_end := now 1 @ ''Z''\<rparr>)"

text \<open>The command has an entry with the given count and rate.\<close>

definition tracked :: "usage_data \<Rightarrow> string \<Rightarrow> int \<Rightarrow> real \<Rightarrow> bool" where
  "tracked data command k r \<longleftrightarrow>
     commands data \<noteq> None \<and>
     (case stored_info data command of
        None \<Rightarrow> False
      | Some info \<Rightarrow> invocations info = Some k \<and> avgSuccessRate info = Some r)"

text \<open>
  The number of successful outcomes, and the specification's closed form of the rate
  after recording the outcomes for a fresh entity.
\<close>

definition successes :: "bool list \<Rightarrow> nat" where
  "successes ss = length (filter (\<lambda>s. s) ss)"

definition seeded_mean :: "bool list \<Rightarrow> real" where
  "seeded_mean ss = (0.5 + real (successes ss)) / real (length ss + 1)"

text \<open>Example inputs.\<close>

definition fixed_clock :: "nat \<Rightarrow> string" where
  "fixed_clock k = ''2026-01-01T00:00:00''"

definition unused_route_data :: usage_data where
  "unused_route_data =
     \<lparr>commands = Some
        [(''/a'', \<lparr>invocations = Some 0, lastUsed = None, avgSuccessRate = Some 0.0,
                   recommendationsMade = None, adoptionRate = None\<rparr>),
         (''/route'', \<lparr>invocations = Some 10, lastUsed = None, avgSuccessRate = Some 0.5,
                   recommendationsMade = Some 5, adoptionRate = Some 0.1\<rparr>)],
      insights = None, recommendations = None, trackingPeriod = None, lastUpdated = None\<rparr>"

definition promotion_order_data :: usage_data where
  "promotion_order_data =
     \<lparr>commands = Some
        [(''/a'', \<lparr>invocations = Some 0, lastUsed = None, avgSuccessRate = Some 0.0,
                   recommendationsMade = None, adoptionRate = None\<rparr>),
         (''/p1'', \<lparr>invocations = Some 1, lastUsed = None, avgSuccessRate = Some 1.0,
                   recommendationsMade = None, adoptionRate = None\<rparr>),
         (''/route'', \<lparr>invocations = Some 10, lastUsed = None, avgSuccessRate = Some 0.5,
                   recommendationsMade = Some 5, adoptionRate = Some 0.1\<rparr>),
         (''/p2'', \<lparr>invocations = Some 4, lastUsed = None, avgSuccessRate = Some 0.9,
                   recommendationsMade = None, adoptionRate = None\<rparr>)],
      insights = None, recommendations = None, trackingPeriod = None, lastUpdated = None\<rparr>"

definition review_deploy_commands :: "(string \<times> command_info) list" where
  "review_deploy_commands =
     [(''/review'', \<lparr>invocations = Some 4, lastUsed = None, avgSuccessRate = Some 0.75,
                       recommendationsMade = None, adoptionRate = None\<rparr>),
      (''/deploy'', \<lparr>invocations = Some 2, lastUsed = None, avgSuccessRate = Some 1.0,
                       recommendationsMade = None, adoptionRate = None\<rparr>)]"

text \<open>An example model entry: attempts, overall rate, and rates by task type.\<close>

definition ex_model :: "int \<Rightarrow> real \<Rightarrow> (string \<times> real) list \<Rightarrow> model_data" where
  "ex_model n r tts = \<lparr>tasksAttempted = Some n, tasksSucceeded = None,
     taskTypes = Some (map (\<lambda>(t, x). (t, \<lparr>attempted = 1, succeeded = 1, type_firstPassRate = Some x\<rparr>)) tts),
     commonFailures = [], firstPassRate = Some r, avgTokensUsed = Some 100, totalTokensUsed = None\<rparr>"

section \<open>Properties of the maturity score\<close>

subsection \<open>Rounding\<close>

lemma py_round_digit: "py_round x n = of_int (round_digit (x * 10 ^ n)) / 10 ^ n"
  by (simp add: py_round_def round_digit_def Let_def)

lemma round_digit_near: "\<bar>of_int (round_digit y) - y\<bar> \<le> 1 / 2"
proof -
  have "of_int \<lfloor>y\<rfloor> \<le> y" and "y < of_int \<lfloor>y\<rfloor> + 1" by linarith+
  then show ?thesis by (auto simp: round_digit_def Let_def)
qed

lemma round_digit_between:
  assumes "of_int A \<le> y" and "y \<le> of_int B"
  shows "A \<le> round_digit y" and "round_digit y \<le> B"
proof -
  have A: "A \<le> \<lfloor>y\<rfloor>" using assms(1) by (simp add: le_floor_iff)
  then show "A \<le> round_digit y" by (auto simp: round_digit_def Let_def)
  have fB: "\<lfloor>y\<rfloor> \<le> B" using assms(2) by (simp add: floor_le_iff)
  have "\<lfloor>y\<rfloor> + 1 \<le> B" if "1 / 2 \<le> y - of_int \<lfloor>y\<rfloor>"
  proof -
    have "of_int \<lfloor>y\<rfloor> < y" using that by simp
    with assms(2) have "(of_int \<lfloor>y\<rfloor> :: real) < of_int B" by linarith
    then show ?thesis by simp
  qed
  with fB show "round_digit y \<le> B" by (auto simp: round_digit_def Let_def)
qed

lemma py_round_between:
  assumes "of_int A \<le> x * 10 ^ n" and "x * 10 ^ n \<le> of_int B"
  shows "of_int A / 10 ^ n \<le> py_round x n" and "py_round x n \<le> of_int B / 10 ^ n"
  using round_digit_between [OF assms]
  by (simp_all add: py_round_digit divide_right_mono)

lemma py_round_near: "\<bar>py_round x n - x\<bar> \<le> 1 / (2 * 10 ^ n)"
proof -
  have "py_round x n - x = (of_int (round_digit (x * 10 ^ n)) - x * 10 ^ n) / 10 ^ n"
    by (simp add: py_round_digit diff_divide_distrib)
  then have "\<bar>py_round x n - x\<bar> = \<bar>of_int (round_digit (x * 10 ^ n)) - x * 10 ^ n\<bar> / 10 ^ n"
    by simp
  also have "\<dots> \<le> (1 / 2) / 10 ^ n"
    by (intro divide_right_mono round_digit_near) simp
  finally show ?thesis by simp
qed

lemma py_round_of_int: "py_round (of_int k) n = of_int k"
proof -
  have "(of_int k :: real) * 10 ^ n = of_int (k * 10 ^ n)" by simp
  then have "round_digit (of_int k * 10 ^ n) = k * 10 ^ n"
    unfolding round_digit_def Let_def by (simp only: floor_of_int) simp
  then show ?thesis by (simp add: py_round_digit)
qed

subsection \<open>Threshold scoring\<close>

lemma scan_thresholds_None_iff:
  "scan_thresholds v ths = None \<longleftrightarrow> (\<forall>p \<in> set ths. fst p < v)"
  by (induction ths) (auto simp: not_le split: if_splits)

lemma scan_thresholds_first:
  "i < length ths \<Longrightarrow> v \<le> fst (ths ! i) \<Longrightarrow> (\<forall>j < i. \<not> v \<le> fst (ths ! j))
     \<Longrightarrow> scan_thresholds v ths = Some (snd (ths ! i))"
proof (induction ths arbitrary: i)
  case Nil
  then show ?case by simp
next
  case (Cons p ths)
  obtain t s where p: "p = (t, s)" by (cases p)
  show ?case
  proof (cases i)
    case 0
    with Cons.prems p show ?thesis by simp
  next
    case (Suc k)
    with Cons.prems have "\<not> v \<le> fst ((p # ths) ! 0)" by blast
    then have nt: "\<not> v \<le> t" using p by simp
    have "scan_thresholds v ths = Some (snd (ths ! k))"
    proof (rule Cons.IH)
      show "k < length ths" using Cons.prems(1) Suc by simp
      show "v \<le> fst (ths ! k)" using Cons.prems(2) Suc by simp
      show "\<forall>j<k. \<not> v \<le> fst (ths ! j)"
      proof (intro allI impI)
        fix j assume "j < k"
        then have "Suc j < i" using Suc by simp
        with Cons.prems(3) have "\<not> v \<le> fst ((p # ths) ! Suc j)" by blast
        then show "\<not> v \<le> fst (ths ! j)" by simp
      qed
    qed
    with nt p Suc show ?thesis by simp
  qed
qed

lemma scan_thresholds_Some_mem:
  "scan_thresholds v ths = Some s \<Longrightarrow> s \<in> snd ` set ths"
  by (induction ths) (auto split: if_splits)

lemma sorted_last_ge:
  fixes xs :: "('a::linorder) list"
  shows "sorted xs \<Longrightarrow> x \<in> set xs \<Longrightarrow> x \<le> last xs"
  by (induction xs) (auto split: if_splits)

lemma score_dimension_clamp:
  "ths \<noteq> [] \<Longrightarrow> score_dimension v ths = Inr (clamp_score v ths)"
  by (simp add: score_dimension_def clamp_score_def split: option.splits)

lemma clamp_score_mem: "ths \<noteq> [] \<Longrightarrow> clamp_score v ths \<in> snd ` set ths"
  by (auto simp: clamp_score_def dest: scan_thresholds_Some_mem split: option.splits)

lemma clamp_score_mono:
  "sorted (map snd ths) \<Longrightarrow> ths \<noteq> [] \<Longrightarrow> v1 \<le> v2
     \<Longrightarrow> clamp_score v1 ths \<le> clamp_score v2 ths"
proof (induction ths)
  case Nil
  then show ?case by simp
next
  case (Cons p ths)
  obtain t s where p: "p = (t, s)" by (cases p)
  from Cons.prems(1) p have low: "\<forall>x \<in> snd ` set ths. s \<le> x" and st: "sorted (map snd ths)"
    by auto
  show ?case
  proof (cases "ths = []")
    case True
    with p show ?thesis by (simp add: clamp_score_def)
  next
    case False
    have tail: "clamp_score v (p # ths) = (if v \<le> t then s else clamp_score v ths)" for v
      using False p by (simp add: clamp_score_def split: option.splits)
    have ih: "clamp_score v1 ths \<le> clamp_score v2 ths"
      using Cons.IH st False Cons.prems(3) by simp
    have "s \<le> clamp_score v2 ths" using low clamp_score_mem [OF False] by blast
    with ih Cons.prems(3) show ?thesis by (auto simp: tail)
  qed
qed

text \<open>
  Claim C1.  On a non-empty threshold table \<open>score_dimension\<close> never raises, for any
  raw value (negative and above 1.0 included).  It returns the score of the first pair
  whose bound is at least the value; when the value exceeds every bound, and so when the
  table is ascending and the value exceeds the last bound, it returns the last pair's
  score.
\<close>

theorem score_dimension_first_match:
  assumes "ths \<noteq> []"
  shows "(\<exists>s. score_dimension v ths = Inr s)
       \<and> (\<forall>i < length ths. v \<le> fst (ths ! i) \<and> (\<forall>j < i. fst (ths ! j) < v)
             \<longrightarrow> score_dimension v ths = Inr (snd (ths ! i)))
       \<and> ((\<forall>p \<in> set ths. fst p < v) \<longrightarrow> score_dimension v ths = Inr (snd (last ths)))
       \<and> (sorted (map fst ths) \<and> fst (last ths) < v
             \<longrightarrow> score_dimension v ths = Inr (snd (last ths)))"
proof (intro conjI allI impI)
  show "\<exists>s. score_dimension v ths = Inr s"
    using assms by (simp add: score_dimension_def split: option.splits)
next
  fix i assume "i < length ths" and "v \<le> fst (ths ! i) \<and> (\<forall>j < i. fst (ths ! j) < v)"
  then have "scan_thresholds v ths = Some (snd (ths ! i))"
    by (intro scan_thresholds_first) (auto simp: not_le)
  then show "score_dimension v ths = Inr (snd (ths ! i))"
    by (simp add: score_dimension_def)
next
  assume "\<forall>p \<in> set ths. fst p < v"
  then have "scan_thresholds v ths = None" by (simp add: scan_thresholds_None_iff)
  with assms show "score_dimension v ths = Inr (snd (last ths))"
    by (simp add: score_dimension_def)
next
  assume a: "sorted (map fst ths) \<and> fst (last ths) < v"
  have "fst p < v" if "p \<in> set ths" for p
  proof -
    have "fst p \<in> set (map fst ths)" using that by simp
    moreover have "last (map fst ths) = fst (last ths)" using assms by (simp add: last_map)
    ultimately have "fst p \<le> fst (last ths)"
      using a sorted_last_ge [of "map fst ths" "fst p"] by simp
    with a show ?thesis by simp
  qed
  then have "scan_thresholds v ths = None" by (simp add: scan_thresholds_None_iff)
  with assms show "score_dimension v ths = Inr (snd (last ths))"
    by (simp add: score_dimension_def)
qed

theorem score_dimension_first_match_witness:
  "[(0.60, 2), (0.70, 4), (0.80, 6), (0.90, 8), (1.00, 10)] \<noteq> ([] :: (real \<times> int) list)
   \<and> score_dimension 0.82 [(0.60, 2), (0.70, 4), (0.80, 6), (0.90, 8), (1.00, 10)] = Inr 8
   \<and> score_dimension 1.07 [(0.60, 2), (0.70, 4), (0.80, 6), (0.90, 8), (1.00, 10)] = Inr 10"
proof -
  let ?t = "[(0.60, 2), (0.70, 4), (0.80, 6), (0.90, 8), (1.00, 10)] :: (real \<times> int) list"
  have ne: "?t \<noteq> []" by simp
  have "(3::nat) < length ?t \<and> (0.82::real) \<le> fst (?t ! 3) \<and> (\<forall>j < 3. fst (?t ! j) < 0.82)"
    by (simp add: less_Suc_eq numeral_3_eq_3)
  with score_dimension_first_match [OF ne, of "0.82"]
  have a: "score_dimension 0.82 ?t = Inr (snd (?t ! 3))" by blast
  have "sorted (map fst ?t) \<and> fst (last ?t) < 1.07" by simp
  with score_dimension_first_match [OF ne, of "1.07"]
  have b: "score_dimension 1.07 ?t = Inr (snd (last ?t))" by blast
  from a b ne show ?thesis by simp
qed

text \<open>
  Claim C5.  On a valid threshold table (non-empty, bounds strictly ascending, scores
  nondecreasing) the score is monotonically nondecreasing in the raw value.
\<close>

theorem score_dimension_mono:
  assumes "valid_thresholds ths" and "v1 \<le> v2"
  shows "\<exists>s1 s2. score_dimension v1 ths = Inr s1 \<and> score_dimension v2 ths = Inr s2 \<and> s1 \<le> s2"
  using assms clamp_score_mono [of ths v1 v2]
  by (simp add: valid_thresholds_def score_dimension_clamp)

theorem score_dimension_mono_witness:
  "valid_thresholds [(0.60, 2), (0.70, 4), (0.80, 6), (0.90, 8), (1.00, 10)]
   \<and> (0.5::real) \<le> 0.95
   \<and> (\<exists>s1 s2. score_dimension 0.5 [(0.60, 2), (0.70, 4), (0.80, 6), (0.90, 8), (1.00, 10)] = Inr s1
        \<and> score_dimension 0.95 [(0.60, 2), (0.70, 4), (0.80, 6), (0.90, 8), (1.00, 10)] = Inr s2
        \<and> s1 \<le> s2)"
proof -
  have v: "valid_thresholds [(0.60, 2), (0.70, 4), (0.80, 6), (0.90, 8), (1.00, 10)]"
    by (simp add: valid_thresholds_def)
  have le: "(0.5::real) \<le> 0.95" by simp
  from score_dimension_mono [OF v le] v le show ?thesis by blast
qed

text \<open>
  Claim C3.  The level is Critical exactly below 2.0, Poor from 2.0 to below 4.0, Fair
  from 4.0 to below 6.0, Good from 6.0 to below 8.0 and Excellent from 8.0 on; a score on
  a boundary belongs to the higher band, so 2.0 is Poor.
\<close>

theorem get_maturity_level_bands:
  "(fst (get_maturity_level x) = ''Critical'' \<longleftrightarrow> x < 2.0)
 \<and> (fst (get_maturity_level x) = ''Poor'' \<longleftrightarrow> 2.0 \<le> x \<and> x < 4.0)
 \<and> (fst (get_maturity_level x) = ''Fair'' \<longleftrightarrow> 4.0 \<le> x \<and> x < 6.0)
 \<and> (fst (get_maturity_level x) = ''Good'' \<longleftrightarrow> 6.0 \<le> x \<and> x < 8.0)
 \<and> (fst (get_maturity_level x) = ''Excellent'' \<longleftrightarrow> 8.0 \<le> x)
 \<and> fst (get_maturity_level 2.0) = ''Poor''"
  by (simp add: get_maturity_level_def)

subsection \<open>Aggregation\<close>

lemma score_dimension_total: "ths \<noteq> [] \<Longrightarrow> \<exists>s. score_dimension v ths = Inr s"
  by (simp add: score_dimension_def split: option.splits)

lemma score_loop_total:
  "\<forall>d \<in> set dims. dim_thresholds d \<noteq> [] \<Longrightarrow> \<exists>out. score_loop env dims results acc = Inr out"
proof (induction dims arbitrary: results acc)
  case Nil
  then show ?case by simp
next
  case (Cons d dims)
  from Cons.prems have "dim_thresholds d \<noteq> []" by simp
  from score_dimension_total [OF this]
  obtain s where "score_dimension (fst (env (dim_getValue d))) (dim_thresholds d) = Inr s"
    by blast
  with Cons show ?case by (simp add: case_prod_beta)
qed

lemma score_loop_sum:
  "score_loop env dims results acc = Inr (rs, tot) \<Longrightarrow>
     \<exists>new. rs = results @ new \<and> tot = acc + sum_list (map weighted new)
        \<and> map res_weight new = map dim_weight dims
        \<and> map (\<lambda>r. Inr (res_score r)) new =
            map (\<lambda>d. score_dimension (fst (env (dim_getValue d))) (dim_thresholds d)) dims"
proof (induction dims arbitrary: results acc)
  case Nil
  then show ?case by simp
next
  case (Cons d dims)
  obtain v detail where e: "env (dim_getValue d) = (v, detail)" by (cases "env (dim_getValue d)")
  from Cons.prems e obtain s where s: "score_dimension v (dim_thresholds d) = Inr s"
    by (cases "score_dimension v (dim_thresholds d)") auto
  define r where "r = \<lparr>res_dimension = dim_name d, res_value = v, res_score = s,
                            res_weight = dim_weight d, res_detail = detail\<rparr>"
  from Cons.prems e s have
    "score_loop env dims (results @ [r]) (acc + of_int s * dim_weight d) = Inr (rs, tot)"
    by (simp add: r_def)
  from Cons.IH [OF this] obtain new where new: "rs = (results @ [r]) @ new"
    "tot = (acc + of_int s * dim_weight d) + sum_list (map weighted new)"
    "map res_weight new = map dim_weight dims"
    "map (\<lambda>r. Inr (res_score r)) new =
            map (\<lambda>d. score_dimension (fst (env (dim_getValue d))) (dim_thresholds d)) dims"
    by blast
  have "rs = results @ (r # new)" using new(1) by simp
  moreover have "tot = acc + sum_list (map weighted (r # new))"
    using new(2) by (simp add: weighted_def r_def)
  moreover have "map res_weight (r # new) = map dim_weight (d # dims)"
    using new(3) by (simp add: r_def)
  moreover have "map (\<lambda>r. Inr (res_score r)) (r # new) =
            map (\<lambda>d. score_dimension (fst (env (dim_getValue d))) (dim_thresholds d)) (d # dims)"
    using new(4) e s by (simp add: r_def)
  ultimately show ?case by blast
qed

lemma weighted_sum_bounds:
  "\<forall>r \<in> set rs. 0 \<le> res_score r \<and> res_score r \<le> 10 \<and> 0 \<le> res_weight r \<Longrightarrow>
     0 \<le> sum_list (map weighted rs) \<and>
     sum_list (map weighted rs) \<le> 10 * sum_list (map res_weight rs)"
proof (induction rs)
  case Nil
  then show ?case by simp
next
  case (Cons r rs)
  then have s: "0 \<le> (of_int (res_score r) :: real)" "(of_int (res_score r) :: real) \<le> 10"
    and w: "0 \<le> res_weight r" by auto
  have "0 \<le> weighted r" using s w by (simp add: weighted_def)
  moreover have "weighted r \<le> 10 * res_weight r"
    unfolding weighted_def using s(2) w by (rule mult_right_mono)
  ultimately show ?case using Cons by (simp add: algebra_simps)
qed

lemma calculate_maturity_of_report:
  assumes "\<forall>d \<in> set dims. dim_thresholds d \<noteq> []"
  shows "\<exists>rep. calculate_maturity_of dims env now = Inr rep
     \<and> map res_weight (dimension_results rep) = map dim_weight dims
     \<and> map (\<lambda>r. Inr (res_score r)) (dimension_results rep) =
         map (\<lambda>d. score_dimension (fst (env (dim_getValue d))) (dim_thresholds d)) dims
     \<and> overallScore rep =
         py_round (\<Sum>r\<leftarrow>dimension_results rep. of_int (res_score r) * res_weight r) 1
     \<and> ((\<forall>r \<in> set (dimension_results rep).
            0 \<le> res_score r \<and> res_score r \<le> 10 \<and> 0 \<le> res_weight r)
          \<and> (\<Sum>r\<leftarrow>dimension_results rep. res_weight r) = 1
          \<longrightarrow> 0 \<le> overallScore rep \<and> overallScore rep \<le> 10)"
proof -
  from score_loop_total [OF assms] obtain rs tot
    where loop: "score_loop env dims [] 0 = Inr (rs, tot)" by fastforce
  from score_loop_sum [OF loop] have rs: "tot = sum_list (map weighted rs)"
    "map res_weight rs = map dim_weight dims"
    "map (\<lambda>r. Inr (res_score r)) rs =
       map (\<lambda>d. score_dimension (fst (env (dim_getValue d))) (dim_thresholds d)) dims"
    by auto
  define rep where "rep = \<lparr>overallScore = py_round tot 1, trend = ''stable'',
               dimension_results = rs, calculatedAt = now @ ''Z''\<rparr>"
  have ret: "calculate_maturity_of dims env now = Inr rep"
    using loop by (simp add: calculate_maturity_of_def rep_def)
  have w: "weighted = (\<lambda>r. of_int (res_score r) * res_weight r)"
    by (rule ext) (simp add: weighted_def)
  have range: "0 \<le> py_round tot 1 \<and> py_round tot 1 \<le> 10"
    if a: "\<forall>r \<in> set rs. 0 \<le> res_score r \<and> res_score r \<le> 10 \<and> 0 \<le> res_weight r"
      and b: "sum_list (map res_weight rs) = 1"
  proof -
    from weighted_sum_bounds [OF a] b rs(1) have "0 \<le> tot" "tot \<le> 10" by simp_all
    then have "of_int 0 \<le> tot * 10 ^ 1" "tot * 10 ^ 1 \<le> of_int 100" by simp_all
    from py_round_between [OF this] show ?thesis by simp
  qed
  show ?thesis
  proof (intro exI [of _ rep] conjI impI)
    show "calculate_maturity_of dims env now = Inr rep" by (rule ret)
    show "map res_weight (dimension_results rep) = map dim_weight dims"
      using rs(2) by (simp add: rep_def)
    show "map (\<lambda>r. Inr (res_score r)) (dimension_results rep) =
         map (\<lambda>d. score_dimension (fst (env (dim_getValue d))) (dim_thresholds d)) dims"
      using rs(3) by (simp add: rep_def)
    show "overallScore rep =
         py_round (\<Sum>r\<leftarrow>dimension_results rep. of_int (res_score r) * res_weight r) 1"
      using rs(1) by (simp add: rep_def w)
  next
    assume "(\<forall>r \<in> set (dimension_results rep).
            0 \<le> res_score r \<and> res_score r \<le> 10 \<and> 0 \<le> res_weight r)
          \<and> (\<Sum>r\<leftarrow>dimension_results rep. res_weight r) = 1"
    then show "0 \<le> overallScore rep" using range by (simp add: rep_def)
  next
    assume "(\<forall>r \<in> set (dimension_results rep).
            0 \<le> res_score r \<and> res_score r \<le> 10 \<and> 0 \<le> res_weight r)
          \<and> (\<Sum>r\<leftarrow>dimension_results rep. res_weight r) = 1"
    then show "overallScore rep \<le> 10" using range by (simp add: rep_def)
  qed
qed

lemma dimensions_tables:
  "d \<in> set dimensions \<Longrightarrow>
     dim_thresholds d \<noteq> [] \<and> (\<forall>s \<in> snd ` set (dim_thresholds d). 0 \<le> s \<and> s \<le> 10)"
  by (auto simp: dimensions_def fifths_def)

lemma dimensions_weights:
  "map dim_weight dimensions = [0.25, 0.20, 0.15, 0.15, 0.15, 0.10]"
  by (simp add: dimensions_def)

lemma fixed_dimensions_in_range:
  assumes w: "map res_weight rs = map dim_weight dimensions"
    and sc: "map (\<lambda>r. Inr (res_score r)) rs =
       map (\<lambda>d. score_dimension (fst (env (dim_getValue d))) (dim_thresholds d)) dimensions"
  shows "(\<forall>r \<in> set rs. 0 \<le> res_score r \<and> res_score r \<le> 10 \<and> 0 \<le> res_weight r)
     \<and> (\<Sum>r\<leftarrow>rs. res_weight r) = 1"
proof (intro conjI ballI)
  show "(\<Sum>r\<leftarrow>rs. res_weight r) = 1"
    using w by (simp add: dimensions_weights)
next
  fix r assume r: "r \<in> set rs"
  then have "res_weight r \<in> set (map res_weight rs)" by simp
  then show "0 \<le> res_weight r"
    unfolding w dimensions_weights by auto
  from r have "Inr (res_score r) \<in> set (map (\<lambda>r. Inr (res_score r) :: py_error + int) rs)"
    by simp
  then obtain d where d: "d \<in> set dimensions"
    and eq: "score_dimension (fst (env (dim_getValue d))) (dim_thresholds d) = Inr (res_score r)"
    unfolding sc by auto
  from dimensions_tables [OF d] have ne: "dim_thresholds d \<noteq> []"
    and range: "\<forall>s \<in> snd ` set (dim_thresholds d). 0 \<le> s \<and> s \<le> 10" by simp_all
  from eq score_dimension_clamp [OF ne, of "fst (env (dim_getValue d))"]
  have "res_score r = clamp_score (fst (env (dim_getValue d))) (dim_thresholds d)" by simp
  with clamp_score_mem [OF ne, of "fst (env (dim_getValue d))"] range
  show "0 \<le> res_score r" and "res_score r \<le> 10" by auto
qed

text \<open>
  Claim C4.  \<open>calculate_maturity\<close> always returns a report whose \<open>overallScore\<close> is the
  sum over the dimensions of score times weight, rounded to one decimal, and lies in
  \<open>[0, 10]\<close>: the weights of the source are positive and sum to 1, and its tables give
  scores from 2 to 10.  The same holds for every list of dimensions with non-empty
  threshold tables: the report carries the weights of the dimensions and the scores that
  \<open>score_dimension\<close> gives, its \<open>overallScore\<close> is the rounded weighted sum, and it is in
  \<open>[0, 10]\<close> when every score is in \<open>[0, 10]\<close>, the weights sum to 1 and, as in the data
  model, no weight is negative.
\<close>

theorem calculate_maturity_overall_score:
  "(\<exists>rep. calculate_maturity env now = Inr rep
      \<and> overallScore rep =
          py_round (\<Sum>r\<leftarrow>dimension_results rep. of_int (res_score r) * res_weight r) 1
      \<and> 0 \<le> overallScore rep \<and> overallScore rep \<le> 10)
   \<and> ((\<forall>d \<in> set dims. dim_thresholds d \<noteq> []) \<longrightarrow>
       (\<exists>rep. calculate_maturity_of dims env now = Inr rep
         \<and> map res_weight (dimension_results rep) = map dim_weight dims
         \<and> map (\<lambda>r. Inr (res_score r)) (dimension_results rep) =
             map (\<lambda>d. score_dimension (fst (env (dim_getValue d))) (dim_thresholds d)) dims
         \<and> overallScore rep =
             py_round (\<Sum>r\<leftarrow>dimension_results rep. of_int (res_score r) * res_weight r) 1
         \<and> ((\<forall>r \<in> set (dimension_results rep).
                0 \<le> res_score r \<and> res_score r \<le> 10 \<and> 0 \<le> res_weight r)
              \<and> (\<Sum>r\<leftarrow>dimension_results rep. res_weight r) = 1
              \<longrightarrow> 0 \<le> overallScore rep \<and> overallScore rep \<le> 10)))"
proof (intro conjI impI)
  assume "\<forall>d \<in> set dims. dim_thresholds d \<noteq> []"
  then show "\<exists>rep. calculate_maturity_of dims env now = Inr rep
         \<and> map res_weight (dimension_results rep) = map dim_weight dims
         \<and> map (\<lambda>r. Inr (res_score r)) (dimension_results rep) =
             map (\<lambda>d. score_dimension (fst (env (dim_getValue d))) (dim_thresholds d)) dims
         \<and> overallScore rep =
             py_round (\<Sum>r\<leftarrow>dimension_results rep. of_int (res_score r) * res_weight r) 1
         \<and> ((\<forall>r \<in> set (dimension_results rep).
                0 \<le> res_score r \<and> res_score r \<le> 10 \<and> 0 \<le> res_weight r)
              \<and> (\<Sum>r\<leftarrow>dimension_results rep. res_weight r) = 1
              \<longrightarrow> 0 \<le> overallScore rep \<and> overallScore rep \<le> 10)"
    by (rule calculate_maturity_of_report)
next
  have "\<forall>d \<in> set dimensions. dim_thresholds d \<noteq> []"
    using dimensions_tables by blast
  from calculate_maturity_of_report [OF this, of env now]
  obtain rep where rep: "calculate_maturity_of dimensions env now = Inr rep"
    and w: "map res_weight (dimension_results rep) = map dim_weight dimensions"
    and sc: "map (\<lambda>r. Inr (res_score r)) (dimension_results rep) =
       map (\<lambda>d. score_dimension (fst (env (dim_getValue d))) (dim_thresholds d)) dimensions"
    and ov: "overallScore rep =
       py_round (\<Sum>r\<leftarrow>dimension_results rep. of_int (res_score r) * res_weight r) 1"
    and range: "(\<forall>r \<in> set (dimension_results rep).
            0 \<le> res_score r \<and> res_score r \<le> 10 \<and> 0 \<le> res_weight r)
          \<and> (\<Sum>r\<leftarrow>dimension_results rep. res_weight r) = 1
          \<longrightarrow> 0 \<le> overallScore rep \<and> overallScore rep \<le> 10"
    by blast
  from fixed_dimensions_in_range [OF w sc] range
  have "0 \<le> overallScore rep \<and> overallScore rep \<le> 10" by blast
  with rep ov show "\<exists>rep. calculate_maturity env now = Inr rep
      \<and> overallScore rep =
          py_round (\<Sum>r\<leftarrow>dimension_results rep. of_int (res_score r) * res_weight r) 1
      \<and> 0 \<le> overallScore rep \<and> overallScore rep \<le> 10"
    by (auto simp: calculate_maturity_def)
qed

theorem calculate_maturity_overall_score_witness:
  "list_all (\<lambda>d. dim_thresholds d \<noteq> []) dimensions
   \<and> (\<exists>rep. calculate_maturity (\<lambda>_. (0.5, ''n/a'')) ''2026-01-01T00:00:00'' = Inr rep
        \<and> overallScore rep = 5.1 \<and> 0 \<le> overallScore rep \<and> overallScore rep \<le> 10)"
proof -
  have ne: "\<forall>d \<in> set dimensions. dim_thresholds d \<noteq> []"
    by (simp add: dimensions_def fifths_def)
  from calculate_maturity_overall_score
    [of "\<lambda>_. (0.5, ''n/a'')" "''2026-01-01T00:00:00''" dimensions] ne
  obtain rep where rep: "calculate_maturity_of dimensions (\<lambda>_. (0.5, ''n/a'')) ''2026-01-01T00:00:00'' = Inr rep"
    and range: "(\<forall>r \<in> set (dimension_results rep).
            0 \<le> res_score r \<and> res_score r \<le> 10 \<and> 0 \<le> res_weight r)
          \<and> (\<Sum>r\<leftarrow>dimension_results rep. res_weight r) = 1
          \<longrightarrow> 0 \<le> overallScore rep \<and> overallScore rep \<le> 10"
    by blast
  have val: "calculate_maturity_of dimensions (\<lambda>_. (0.5, ''n/a'')) ''2026-01-01T00:00:00'' =
     Inr \<lparr>overallScore = 5.1, trend = ''stable'',
        dimension_results =
          [\<lparr>res_dimension = ''Delegation Compliance'', res_value = 0.5,
              res_score = 6, res_weight = 0.25, res_detail = ''n/a''\<rparr>,
           \<lparr>res_dimension = ''Error Recurrence'', res_value = 0.5,
              res_score = 6, res_weight = 0.20, res_detail = ''n/a''\<rparr>,
           \<lparr>res_dimension = ''Documentation Coverage'', res_value = 0.5,
              res_score = 4, res_weight = 0.15, res_detail = ''n/a''\<rparr>,
           \<lparr>res_dimension = ''Test Coverage'', res_value = 0.5,
              res_score = 2, res_weight = 0.15, res_detail = ''n/a''\<rparr>,
           \<lparr>res_dimension = ''Context Freshness'', res_value = 0.5,
              res_score = 6, res_weight = 0.15, res_detail = ''n/a''\<rparr>,
           \<lparr>res_dimension = ''Hook Adoption'', res_value = 0.5,
              res_score = 6, res_weight = 0.10, res_detail = ''n/a''\<rparr>],
        calculatedAt = ''2026-01-01T00:00:00Z''\<rparr>"
    by (simp add: calculate_maturity_of_def dimensions_def fifths_def score_dimension_def
        py_round_def Let_def)
  with rep have r: "rep = \<lparr>overallScore = 5.1, trend = ''stable'',
        dimension_results =
          [\<lparr>res_dimension = ''Delegation Compliance'', res_value = 0.5,
              res_score = 6, res_weight = 0.25, res_detail = ''n/a''\<rparr>,
           \<lparr>res_dimension = ''Error Recurrence'', res_value = 0.5,
              res_score = 6, res_weight = 0.20, res_detail = ''n/a''\<rparr>,
           \<lparr>res_dimension = ''Documentation Coverage'', res_value = 0.5,
              res_score = 4, res_weight = 0.15, res_detail = ''n/a''\<rparr>,
           \<lparr>res_dimension = ''Test Coverage'', res_value = 0.5,
              res_score = 2, res_weight = 0.15, res_detail = ''n/a''\<rparr>,
           \<lparr>res_dimension = ''Context Freshness'', res_value = 0.5,
              res_score = 6, res_weight = 0.15, res_detail = ''n/a''\<rparr>,
           \<lparr>res_dimension = ''Hook Adoption'', res_value = 0.5,
              res_score = 6, res_weight = 0.10, res_detail = ''n/a''\<rparr>],
        calculatedAt = ''2026-01-01T00:00:00Z''\<rparr>" by simp
  have "(\<forall>r \<in> set (dimension_results rep).
            0 \<le> res_score r \<and> res_score r \<le> 10 \<and> 0 \<le> res_weight r)
          \<and> (\<Sum>r\<leftarrow>dimension_results rep. res_weight r) = 1"
    by (simp add: r)
  with range have "0 \<le> overallScore rep \<and> overallScore rep \<le> 10" by blast
  moreover have "overallScore rep = 5.1" by (simp add: r)
  ultimately show ?thesis using ne rep by (simp add: calculate_maturity_def list_all_iff)
qed

section \<open>Properties of the model comparison\<close>

lemma quality_loop_gate:
  "snd (quality_loop ms bq hq) = Some m \<Longrightarrow>
     hq = Some m \<or> (\<exists>md. (m, md) \<in> set ms \<and> 5 < attempts md)"
proof (induction ms arbitrary: bq hq)
  case Nil
  then show ?case by simp
next
  case (Cons p ms)
  obtain model md where p: "p = (model, md)" by (cases p)
  show ?case
  proof (cases "dict_get (firstPassRate md) 0.0 > bq \<and> dict_get (tasksAttempted md) 0 > 5")
    case True
    with Cons.prems p have "snd (quality_loop ms (dict_get (firstPassRate md) 0.0) (Some model)) = Some m"
      by (simp add: Let_def)
    from Cons.IH [OF this] True p show ?thesis by (auto simp: attempts_def)
  next
    case False
    with Cons.prems p have "snd (quality_loop ms bq hq) = Some m"
      by (auto simp: Let_def)
    from Cons.IH [OF this] show ?thesis by auto
  qed
qed

lemma highest_quality_entry:
  "map_of (generate_recommendations_in types ms) ''highestQuality'' =
     Some (or_insufficient_data (snd (quality_loop ms 0.0 None)))"
  by (simp add: generate_recommendations_in_def Let_def update_conv')

lemma or_insufficient_data_cases:
  "or_insufficient_data x = ''insufficient_data'' \<or> x = Some (or_insufficient_data x)"
  by (simp add: or_insufficient_data_def split: option.splits)

text \<open>
  Claim C6.  The comparison always has a \<open>highestQuality\<close> entry, for every enumeration
  of the task types.  The entry is the sentinel \<open>insufficient_data\<close> or the name of a
  model with more than 5 attempts; with the unique keys of a dictionary it is never the
  name of a model with at most 5 attempts, unless that model is itself called
  \<open>insufficient_data\<close>; and it is the sentinel when no model has more than 5 attempts.
\<close>

theorem highest_quality_gate:
  "\<exists>r. map_of (generate_recommendations_in types ms) ''highestQuality'' = Some r
     \<and> (r = ''insufficient_data'' \<or> (\<exists>md. (r, md) \<in> set ms \<and> 5 < attempts md))
     \<and> (distinct (map fst ms) \<longrightarrow>
          (\<forall>md. (r, md) \<in> set ms \<and> attempts md \<le> 5 \<longrightarrow> r = ''insufficient_data''))
     \<and> ((\<forall>(m, md) \<in> set ms. attempts md \<le> 5) \<longrightarrow> r = ''insufficient_data'')"
proof -
  define hq where "hq = snd (quality_loop ms 0.0 None)"
  define r where "r = or_insufficient_data hq"
  have entry: "map_of (generate_recommendations_in types ms) ''highestQuality'' = Some r"
    by (simp add: highest_quality_entry r_def hq_def)
  have gate: "r = ''insufficient_data'' \<or> (\<exists>md. (r, md) \<in> set ms \<and> 5 < attempts md)"
  proof (cases "r = ''insufficient_data''")
    case True
    then show ?thesis by simp
  next
    case False
    then have "hq = Some r" using or_insufficient_data_cases [of hq] by (simp add: r_def)
    then have "snd (quality_loop ms 0.0 None) = Some r" by (simp add: hq_def)
    from quality_loop_gate [OF this] show ?thesis by simp
  qed
  have uniq: "r = ''insufficient_data''"
    if d: "distinct (map fst ms)" and md: "(r, md) \<in> set ms" "attempts md \<le> 5" for md
  proof (rule ccontr)
    assume "r \<noteq> ''insufficient_data''"
    with gate obtain md' where md': "(r, md') \<in> set ms" "5 < attempts md'" by blast
    from d md(1) md'(1) have "md = md'" by (meson eq_key_imp_eq_value)
    with md(2) md'(2) show False by simp
  qed
  have none: "r = ''insufficient_data''" if "\<forall>(m, md) \<in> set ms. attempts md \<le> 5"
    using gate that by fastforce
  show ?thesis
    using entry gate uniq none by blast
qed

theorem highest_quality_gate_witness:
  "distinct (map fst [(''deepseek'', ex_model 5 0.8 []), (''qwen'', ex_model 4 0.6 [])])
   \<and> list_all (\<lambda>(m, md). attempts md \<le> 5)
         [(''deepseek'', ex_model 5 0.8 []), (''qwen'', ex_model 4 0.6 [])]
   \<and> map_of (generate_recommendations
               [(''deepseek'', ex_model 5 0.8 []), (''qwen'', ex_model 4 0.6 [])])
        ''highestQuality'' = Some ''insufficient_data''
   \<and> map_of (generate_recommendations
               [(''deepseek'', ex_model 5 0.9 []), (''qwen'', ex_model 6 0.6 [])])
        ''highestQuality'' = Some ''qwen''"
proof -
  let ?ms = "[(''deepseek'', ex_model 5 0.8 []), (''qwen'', ex_model 4 0.6 [])]"
  let ?ms' = "[(''deepseek'', ex_model 5 0.9 []), (''qwen'', ex_model 6 0.6 [])]"
  have low: "\<forall>(m, md) \<in> set ?ms. attempts md \<le> 5"
    by (simp add: attempts_def ex_model_def dict_get_def)
  from highest_quality_gate [of "task_types ?ms" ?ms] low
  have a: "map_of (generate_recommendations ?ms) ''highestQuality'' = Some ''insufficient_data''"
    unfolding generate_recommendations_def by blast
  from highest_quality_gate [of "task_types ?ms'" ?ms']
  obtain r where r: "map_of (generate_recommendations ?ms') ''highestQuality'' = Some r"
    and u: "distinct (map fst ?ms') \<longrightarrow>
          (\<forall>md. (r, md) \<in> set ?ms' \<and> attempts md \<le> 5 \<longrightarrow> r = ''insufficient_data'')"
    unfolding generate_recommendations_def by blast
  have "map_of (generate_recommendations ?ms') ''highestQuality'' = Some ''qwen''"
    by (simp add: generate_recommendations_def generate_recommendations_in_def task_types_def
        ex_model_def dict_get_def or_insufficient_data_def less_inf_def)
  with a low show ?thesis by (simp add: list_all_iff)
qed

lemma best_for_loop_positive:
  "fst (best_for_loop tt ms bm br) = Some m \<Longrightarrow> 0 \<le> br \<Longrightarrow>
     bm = Some m \<or> (\<exists>md rate. (m, md) \<in> set ms \<and> type_rate md tt = Some rate \<and> 0 < rate)"
proof (induction ms arbitrary: bm br)
  case Nil
  then show ?case by simp
next
  case (Cons p ms)
  obtain model md where p: "p = (model, md)" by (cases p)
  show ?case
  proof (cases "map_of (dict_get (taskTypes md) []) tt")
    case None
    with Cons.prems p have "fst (best_for_loop tt ms bm br) = Some m" by simp
    from Cons.IH [OF this Cons.prems(2)] show ?thesis by auto
  next
    case (Some stats)
    define rate where "rate = dict_get (type_firstPassRate stats) 0.0"
    have tr: "type_rate md tt = Some rate" using Some by (simp add: type_rate_def rate_def)
    show ?thesis
    proof (cases "rate > br")
      case True
      with Cons.prems p Some have "fst (best_for_loop tt ms (Some model) rate) = Some m"
        by (simp add: rate_def Let_def)
      moreover have "0 \<le> rate" using True Cons.prems(2) by simp
      ultimately have "Some model = Some m
          \<or> (\<exists>md rate. (m, md) \<in> set ms \<and> type_rate md tt = Some rate \<and> 0 < rate)"
        by (rule Cons.IH)
      moreover have "0 < rate" using True Cons.prems(2) by simp
      ultimately show ?thesis using p tr by auto
    next
      case False
      with Cons.prems p Some have "fst (best_for_loop tt ms bm br) = Some m"
        by (simp add: rate_def Let_def)
      from Cons.IH [OF this Cons.prems(2)] show ?thesis by auto
    qed
  qed
qed

lemma best_for_all_lookup:
  "map_of (best_for_all types ms recs) k = Some m \<Longrightarrow>
     map_of recs k = Some m
     \<or> (\<exists>tt \<in> set types. k = ''bestFor_'' @ tt \<and> fst (best_for_loop tt ms None 0.0) = Some m)"
proof (induction types arbitrary: recs)
  case Nil
  then show ?case by simp
next
  case (Cons tt types)
  show ?case
  proof (cases "fst (best_for_loop tt ms None 0.0)")
    case None
    with Cons.prems have "map_of (best_for_all types ms recs) k = Some m" by simp
    from Cons.IH [OF this] show ?thesis by auto
  next
    case (Some bm)
    show ?thesis
    proof (cases "bm = []")
      case True
      with Cons.prems Some have "map_of (best_for_all types ms recs) k = Some m" by simp
      from Cons.IH [OF this] show ?thesis by auto
    next
      case False
      with Cons.prems Some
      have "map_of (best_for_all types ms (AList.update (''bestFor_'' @ tt) bm recs)) k = Some m"
        by simp
      from Cons.IH [OF this] Some show ?thesis
        by (auto simp: update_conv' split: if_splits)
    qed
  qed
qed

lemma best_for_entry:
  "map_of (generate_recommendations_in types ms) (''bestFor_'' @ tt) =
     map_of (best_for_all types ms []) (''bestFor_'' @ tt)"
  by (simp add: generate_recommendations_in_def Let_def update_conv')

text \<open>
  Claim C9.  A model named in \<open>bestFor_<taskType>\<close> has an entry for the task type with
  a first-pass rate above 0; so when every model that attempted the task type has rate
  0.0, there is no \<open>bestFor_<taskType>\<close> entry at all, for every enumeration of the task
  types.
\<close>

theorem best_for_needs_success:
  "(\<forall>m. map_of (generate_recommendations_in types ms) (''bestFor_'' @ tt) = Some m \<longrightarrow>
        (\<exists>md rate. (m, md) \<in> set ms \<and> type_rate md tt = Some rate \<and> 0 < rate))
   \<and> ((\<forall>(m, md) \<in> set ms. \<forall>rate. type_rate md tt = Some rate \<longrightarrow> rate = 0) \<longrightarrow>
        map_of (generate_recommendations_in types ms) (''bestFor_'' @ tt) = None)"
proof -
  have named: "\<exists>md rate. (m, md) \<in> set ms \<and> type_rate md tt = Some rate \<and> 0 < rate"
    if "map_of (generate_recommendations_in types ms) (''bestFor_'' @ tt) = Some m" for m
  proof -
    from that have "map_of (best_for_all types ms []) (''bestFor_'' @ tt) = Some m"
      by (simp only: best_for_entry)
    from best_for_all_lookup [OF this]
    have "fst (best_for_loop tt ms None 0.0) = Some m" by auto
    from best_for_loop_positive [OF this] show ?thesis by simp
  qed
  have "map_of (generate_recommendations_in types ms) (''bestFor_'' @ tt) = None"
    if z: "\<forall>(m, md) \<in> set ms. \<forall>rate. type_rate md tt = Some rate \<longrightarrow> rate = 0"
  proof (cases "map_of (generate_recommendations_in types ms) (''bestFor_'' @ tt)")
    case None
    then show ?thesis .
  next
    case (Some m)
    from named [OF this] obtain md rate
      where "(m, md) \<in> set ms" "type_rate md tt = Some rate" "0 < rate" by blast
    with z show ?thesis by fastforce
  qed
  with named show ?thesis by blast
qed

theorem best_for_needs_success_witness:
  "list_all (\<lambda>(m, md). type_rate md ''refactor'' = Some 0)
      [(''qwen'', ex_model 3 0.0 [(''refactor'', 0.0)])]
   \<and> map_of (generate_recommendations [(''qwen'', ex_model 3 0.0 [(''refactor'', 0.0)])])
        (''bestFor_'' @ ''refactor'') = None
   \<and> map_of (generate_recommendations
        [(''deepseek'', ex_model 10 0.8 [(''refactor'', 0.8)]),
         (''qwen'', ex_model 10 0.6 [(''refactor'', 0.6)])])
        (''bestFor_'' @ ''refactor'') = Some ''deepseek''"
proof -
  let ?ms = "[(''qwen'', ex_model 3 0.0 [(''refactor'', 0.0)])]"
  have z: "\<forall>(m, md) \<in> set ?ms. \<forall>rate. type_rate md ''refactor'' = Some rate \<longrightarrow> rate = 0"
    by (simp add: type_rate_def ex_model_def dict_get_def)
  from best_for_needs_success [of "task_types ?ms" ?ms "''refactor''"] z
  have "map_of (generate_recommendations ?ms) (''bestFor_'' @ ''refactor'') = None"
    unfolding generate_recommendations_def by blast
  moreover have "map_of (generate_recommendations
        [(''deepseek'', ex_model 10 0.8 [(''refactor'', 0.8)]),
         (''qwen'', ex_model 10 0.6 [(''refactor'', 0.6)])])
        (''bestFor_'' @ ''refactor'') = Some ''deepseek''"
    by (simp add: generate_recommendations_def generate_recommendations_in_def task_types_def
        ex_model_def dict_get_def or_insufficient_data_def less_inf_def)
  moreover have "list_all (\<lambda>(m, md). type_rate md ''refactor'' = Some 0) ?ms"
    by (simp add: type_rate_def ex_model_def dict_get_def)
  ultimately show ?thesis by blast
qed

section \<open>Properties of the usage analysis\<close>

text \<open>
  Claim C8.  For the entities \<open>/a\<close> and \<open>/b\<close> with 0 invocations, \<open>/local-x\<close> with 3 and
  \<open>/local-y\<close> with 2, whatever their other fields, the analysis reports the unused
  commands \<open>/a, /b\<close>, the most used commands \<open>/local-x, /local-y\<close> (descending, the
  zero-invocation ones left out) and exactly one redundancy cluster, with the members
  \<open>/local-x, /local-y\<close>.
\<close>

theorem usage_example_insights:
  "insights (analyze_usage_patterns
      (data\<lparr>commands := Some
         [(''/a'', a\<lparr>invocations := Some 0\<rparr>), (''/b'', b\<lparr>invocations := Some 0\<rparr>),
          (''/local-x'', x\<lparr>invocations := Some 3\<rparr>),
          (''/local-y'', y\<lparr>invocations := Some 2\<rparr>)]\<rparr>)) =
   Some \<lparr>mostUsedCommands = [''/local-x'', ''/local-y''],
         leastUsedCommands = [''/a'', ''/b''],
         redundantCommands =
           [\<lparr>red_commands = [''/local-x'', ''/local-y''],
             red_reason = ''Multiple /local-* commands with low usage, consider consolidation'',
             red_suggestion = ''Merge into /delegate-auto with auto-routing''\<rparr>],
         chainingOpportunities = find_chaining_opportunities [],
         confusionPatterns = []\<rparr>"
  by (simp add: analyze_usage_patterns_def find_redundant_commands_def get_invocations_def
      dict_get_def find_chaining_opportunities_def Let_def)

lemma promotion_loop_list:
  "promotion_loop cmds recs = recs @ map promotion_recommendation (promotable_commands cmds)"
proof (induction cmds arbitrary: recs)
  case Nil
  then show ?case by (simp add: promotable_commands_def)
next
  case (Cons p cmds)
  obtain cmd info where p: "p = (cmd, info)" by (cases p)
  show ?case
  proof (cases "promotable info")
    case True
    then have "promotion_loop (p # cmds) recs =
        promotion_loop cmds (recs @ [promotion_recommendation cmd])"
      using p by (simp add: promotable_def promotion_recommendation_def Let_def)
    also have "\<dots> = (recs @ [promotion_recommendation cmd])
        @ map promotion_recommendation (promotable_commands cmds)"
      by (rule Cons.IH)
    finally show ?thesis using True p by (simp add: promotable_commands_def)
  next
    case False
    then have "promotion_loop (p # cmds) recs = promotion_loop cmds recs"
      using p by (auto simp: promotable_def Let_def)
    with Cons.IH [of recs] False p show ?thesis by (simp add: promotable_commands_def)
  qed
qed

lemma least_used_mapping_order:
  "map fst (filter (\<lambda>(cmd, count). count = 0)
      (sort_key (\<lambda>x. - snd x) (map (\<lambda>(cmd, info). (cmd, get_invocations info)) cmds)))
   = unused_commands cmds"
proof -
  have p: "(\<lambda>(cmd, count). count = 0) = (\<lambda>y :: string \<times> int. - snd y = 0)"
    by (auto simp: fun_eq_iff)
  have "filter (\<lambda>(cmd, count). count = 0)
      (sort_key (\<lambda>x. - snd x) (map (\<lambda>(cmd, info). (cmd, get_invocations info)) cmds))
    = filter (\<lambda>(cmd, count). count = 0) (map (\<lambda>(cmd, info). (cmd, get_invocations info)) cmds)"
    unfolding p by (rule sort_key_stable)
  then show ?thesis
    by (simp add: unused_commands_def filter_map comp_def case_prod_unfold)
qed

lemma never_used_iff: "never_used cmds \<longleftrightarrow> unused_commands cmds \<noteq> []"
  by (simp add: never_used_def unused_commands_def filter_empty_conv list_ex_iff
      case_prod_unfold)

lemma analyze_usage_patterns_least_used:
  "\<exists>most_used. analyze_usage_patterns data =
     data\<lparr>insights := Some
       \<lparr>mostUsedCommands = most_used,
        leastUsedCommands = unused_commands (dict_get (commands data) []),
        redundantCommands = find_redundant_commands (dict_get (commands data) []),
        chainingOpportunities = find_chaining_opportunities (dict_get (commands data) []),
        confusionPatterns = []\<rparr>\<rparr>"
  by (simp only: analyze_usage_patterns_def Let_def least_used_mapping_order) blast

lemma generate_recommendations_usage_list:
  assumes "insights data = Some i"
  shows "recommendations (generate_recommendations_usage data) = Some
     ((if leastUsedCommands i \<noteq> [] then [cleanup_recommendation (leastUsedCommands i)] else [])
      @ map consolidation_recommendation (redundantCommands i)
      @ (if low_adoption (dict_get (commands data) [])
         then [adoption_recommendation (route_get (dict_get (commands data) []) adoptionRate 0.0)]
         else [])
      @ map promotion_recommendation (promotable_commands (dict_get (commands data) [])))"
proof -
  have c: "consolidation_recommendation = (\<lambda>redundancy.
                  \<lparr>rec_priority = ''medium'', rec_category = ''consolidation'',
                   rec_issue = red_reason redundancy,
                   rec_commands = Some (red_commands redundancy),
                   rec_suggestion = red_suggestion redundancy\<rparr>)"
    by (rule ext) (simp add: consolidation_recommendation_def)
  show ?thesis
    unfolding generate_recommendations_usage_def Let_def promotion_loop_list c
    using assms
    by (simp add: low_adoption_def cleanup_recommendation_def adoption_recommendation_def)
qed

text \<open>
  Claim C7, as stated, fails: with an unused command and a poorly adopted \<open>/route\<close>, the
  low-priority cleanup recommendation precedes the high-priority adoption one.
\<close>

theorem recommendations_not_priority_sorted:
  "map_option (map rec_priority)
     (recommendations (analyze_command_usage ''2026-01-01T00:00:00'' unused_route_data))
     = Some [''low'', ''high'']
   \<and> \<not> priority_descending
       (dict_get (recommendations (analyze_command_usage ''2026-01-01T00:00:00'' unused_route_data)) [])"
  by (simp add: analyze_command_usage_def analyze_usage_patterns_def
      generate_recommendations_usage_def unused_route_data_def find_redundant_commands_def
      get_invocations_def dict_get_def find_chaining_opportunities_def route_get_def
      priority_descending_def priority_rank_def Let_def)

text \<open>
  Claim C7, amended.  The recommendations come in generation order and are not sorted by
  priority.  The sequence is exactly: the cleanup recommendation (low) about the commands
  with 0 invocations, when there is one; then one consolidation recommendation (medium)
  for each redundancy cluster, in the order of the clusters; then the adoption
  recommendation (high), when \<open>/route\<close> made recommendations and its adoption rate is below
  0.3; then one promotion recommendation (medium) for each command with fewer than 5
  invocations and a success rate above 0.8, in the order of the mapping.
\<close>

theorem recommendations_generation_order:
  "\<exists>recs. recommendations (analyze_command_usage now data) = Some recs
     \<and> recs =
         (if never_used (dict_get (commands data) [])
          then [cleanup_recommendation (unused_commands (dict_get (commands data) []))]
          else [])
         @ map consolidation_recommendation
             (find_redundant_commands (dict_get (commands data) []))
         @ (if low_adoption (dict_get (commands data) [])
            then [adoption_recommendation
                    (route_get (dict_get (commands data) []) adoptionRate 0.0)]
            else [])
         @ map promotion_recommendation (promotable_commands (dict_get (commands data) []))
     \<and> map rec_category recs =
         (if never_used (dict_get (commands data) []) then [''cleanup''] else [])
         @ replicate (length (find_redundant_commands (dict_get (commands data) [])))
             ''consolidation''
         @ (if low_adoption (dict_get (commands data) []) then [''adoption''] else [])
         @ replicate (length (filter (\<lambda>(cmd, info). promotable info)
                                (dict_get (commands data) []))) ''promotion''
     \<and> map rec_priority recs =
         (if never_used (dict_get (commands data) []) then [''low''] else [])
         @ replicate (length (find_redundant_commands (dict_get (commands data) []))) ''medium''
         @ (if low_adoption (dict_get (commands data) []) then [''high''] else [])
         @ replicate (length (filter (\<lambda>(cmd, info). promotable info)
                                (dict_get (commands data) []))) ''medium''"
proof -
  define cmds where "cmds = dict_get (commands data) []"
  define recs where "recs =
         (if never_used cmds then [cleanup_recommendation (unused_commands cmds)] else [])
         @ map consolidation_recommendation (find_redundant_commands cmds)
         @ (if low_adoption cmds
            then [adoption_recommendation (route_get cmds adoptionRate 0.0)] else [])
         @ map promotion_recommendation (promotable_commands cmds)"
  from analyze_usage_patterns_least_used [of data] obtain most_used where
    a: "analyze_usage_patterns data =
     data\<lparr>insights := Some
       \<lparr>mostUsedCommands = most_used, leastUsedCommands = unused_commands cmds,
        redundantCommands = find_redundant_commands cmds,
        chainingOpportunities = find_chaining_opportunities cmds,
        confusionPatterns = []\<rparr>\<rparr>"
    unfolding cmds_def by blast
  have i: "insights (analyze_usage_patterns data) = Some
       \<lparr>mostUsedCommands = most_used, leastUsedCommands = unused_commands cmds,
        redundantCommands = find_redundant_commands cmds,
        chainingOpportunities = find_chaining_opportunities cmds,
        confusionPatterns = []\<rparr>"
    and c: "dict_get (commands (analyze_usage_patterns data)) [] = cmds"
    by (simp_all add: a cmds_def)
  have run: "recommendations (analyze_command_usage now data) = Some recs"
    using generate_recommendations_usage_list [OF i]
    by (simp add: analyze_command_usage_def Let_def c recs_def never_used_iff)
  have cat: "map rec_category recs =
         (if never_used cmds then [''cleanup''] else [])
         @ replicate (length (find_redundant_commands cmds)) ''consolidation''
         @ (if low_adoption cmds then [''adoption''] else [])
         @ replicate (length (filter (\<lambda>(cmd, info). promotable info) cmds)) ''promotion''"
    by (simp add: recs_def map_replicate_const comp_def cleanup_recommendation_def
        consolidation_recommendation_def adoption_recommendation_def
        promotion_recommendation_def promotable_commands_def)
  have pri: "map rec_priority recs =
         (if never_used cmds then [''low''] else [])
         @ replicate (length (find_redundant_commands cmds)) ''medium''
         @ (if low_adoption cmds then [''high''] else [])
         @ replicate (length (filter (\<lambda>(cmd, info). promotable info) cmds)) ''medium''"
    by (simp add: recs_def map_replicate_const comp_def cleanup_recommendation_def
        consolidation_recommendation_def adoption_recommendation_def
        promotion_recommendation_def promotable_commands_def)
  show ?thesis
    unfolding cmds_def [symmetric]
    using run cat pri recs_def by blast
qed

theorem recommendations_generation_order_witness:
  "\<exists>recs. recommendations (analyze_command_usage ''2026-01-01T00:00:00'' promotion_order_data)
       = Some recs
     \<and> recs = [cleanup_recommendation [''/a''], adoption_recommendation 0.1,
               promotion_recommendation ''/p1'', promotion_recommendation ''/p2'']
     \<and> map rec_issue recs =
          [''1 commands never used in 30 days'',
           ''/route recommendations only followed 10% of time'',
           ''/p1 highly successful but rarely used'',
           ''/p2 highly successful but rarely used'']
     \<and> map rec_category recs = [''cleanup'', ''adoption'', ''promotion'', ''promotion'']
     \<and> map rec_priority recs = [''low'', ''high'', ''medium'', ''medium'']"
proof -
  have c: "dict_get (commands promotion_order_data) [] =
     [(''/a'', \<lparr>invocations = Some 0, lastUsed = None, avgSuccessRate = Some 0.0,
                   recommendationsMade = None, adoptionRate = None\<rparr>),
      (''/p1'', \<lparr>invocations = Some 1, lastUsed = None, avgSuccessRate = Some 1.0,
                   recommendationsMade = None, adoptionRate = None\<rparr>),
      (''/route'', \<lparr>invocations = Some 10, lastUsed = None, avgSuccessRate = Some 0.5,
                   recommendationsMade = Some 5, adoptionRate = Some 0.1\<rparr>),
      (''/p2'', \<lparr>invocations = Some 4, lastUsed = None, avgSuccessRate = Some 0.9,
                   recommendationsMade = None, adoptionRate = None\<rparr>)]"
    by (simp add: promotion_order_data_def dict_get_def)
  have issues: "map rec_issue [cleanup_recommendation [''/a''], adoption_recommendation 0.1,
               promotion_recommendation ''/p1'', promotion_recommendation ''/p2''] =
          [''1 commands never used in 30 days'',
           ''/route recommendations only followed 10% of time'',
           ''/p1 highly successful but rarely used'',
           ''/p2 highly successful but rarely used'']"
    by (simp add: cleanup_recommendation_def adoption_recommendation_def
        promotion_recommendation_def format_0f_def py_round_def str_nat.simps digit_char_def)
  show ?thesis
    using recommendations_generation_order [of "''2026-01-01T00:00:00''" promotion_order_data]
      issues
    unfolding c
    by (simp add: never_used_def low_adoption_def promotable_def find_redundant_commands_def
        route_get_def get_invocations_def dict_get_def unused_commands_def
        promotable_commands_def)
qed

section \<open>Properties of the usage tracker\<close>

lemma update_command_usage_result:
  assumes "commands data = Some cmds"
    and "get_invocations (prior_info cmds command) + 1 \<noteq> 0"
  shows "update_command_usage now command success data =
     Inr (data\<lparr>commands :=
                 Some (AList.update command (updated_info now success (prior_info cmds command)) cmds),
               trackingPeriod := Some (updated_period now data)\<rparr>)"
proof (cases "command \<in> fst ` set cmds")
  case True
  then obtain info where info: "map_of cmds command = Some info"
    by (metis map_of_eq_None_iff not_None_eq)
  with assms True show ?thesis
    by (simp add: update_command_usage_def prior_info_def updated_info_def outcome_value_def
        get_invocations_def dict_get_def Let_def updated_period_def)
next
  case False
  then have none: "map_of cmds command = None" by (simp add: map_of_eq_None_iff)
  with assms False show ?thesis
    by (simp add: update_command_usage_def prior_info_def updated_info_def outcome_value_def
        get_invocations_def dict_get_def Let_def update_conv' fresh_command_def updated_period_def)
qed

lemma filter_update_other:
  "filter (\<lambda>(c, info). c \<noteq> k) (AList.update k v al) = filter (\<lambda>(c, info). c \<noteq> k) al"
  by (induction al) auto

lemma stored_invocations_prior:
  "stored_invocations cmds command = get_invocations (prior_info cmds command)"
  by (simp add: stored_invocations_def prior_info_def fresh_command_def get_invocations_def
      dict_get_def split: option.splits)

text \<open>
  Claim C10.  On stored data that has its commands mapping, where the count of the named
  command is not \<open>-1\<close> (counts are at least 0 in the data model, and a fresh command
  counts 0), \<open>update_command_usage\<close> saves data in which every entry other than the named
  command's is unchanged, in content and in order, and the named command's invocations
  count is the old count plus exactly 1.
\<close>

theorem update_command_usage_frame:
  assumes "commands data = Some cmds" and "stored_invocations cmds command \<noteq> - 1"
  shows "\<exists>data' cmds' info'. update_command_usage now command success data = Inr data'
     \<and> commands data' = Some cmds'
     \<and> filter (\<lambda>(c, info). c \<noteq> command) cmds' = filter (\<lambda>(c, info). c \<noteq> command) cmds
     \<and> (\<forall>c. c \<noteq> command \<longrightarrow> map_of cmds' c = map_of cmds c)
     \<and> map_of cmds' command = Some info'
     \<and> invocations info' = Some (stored_invocations cmds command + 1)
     \<and> stored_invocations cmds' command = stored_invocations cmds command + 1"
proof -
  define info' where "info' = updated_info now success (prior_info cmds command)"
  define cmds' where "cmds' = AList.update command info' cmds"
  have "get_invocations (prior_info cmds command) + 1 \<noteq> 0"
    using assms(2) by (simp add: stored_invocations_prior)
  from update_command_usage_result [OF assms(1) this, of now success]
  obtain data' where ret: "update_command_usage now command success data = Inr data'"
    and cs: "commands data' = Some cmds'"
    by (auto simp: cmds'_def info'_def)
  have inv: "invocations info' = Some (stored_invocations cmds command + 1)"
    by (simp add: info'_def updated_info_def stored_invocations_prior)
  have look: "map_of cmds' command = Some info'"
    by (simp add: cmds'_def update_conv')
  have "stored_invocations cmds' command = stored_invocations cmds command + 1"
    using look inv by (simp add: stored_invocations_def get_invocations_def dict_get_def)
  moreover have "filter (\<lambda>(c, info). c \<noteq> command) cmds' = filter (\<lambda>(c, info). c \<noteq> command) cmds"
    by (simp add: cmds'_def filter_update_other)
  moreover have "\<forall>c. c \<noteq> command \<longrightarrow> map_of cmds' c = map_of cmds c"
    by (simp add: cmds'_def update_conv')
  ultimately show ?thesis using ret cs look inv by blast
qed

theorem update_command_usage_frame_witness:
  "stored_invocations review_deploy_commands ''/review'' \<noteq> - 1
   \<and> (\<exists>data' cmds'.
         update_command_usage fixed_clock ''/review'' True
           (load_command_data_default\<lparr>commands := Some review_deploy_commands\<rparr>) = Inr data'
       \<and> commands data' = Some cmds'
       \<and> map_of cmds' ''/deploy'' = map_of review_deploy_commands ''/deploy''
       \<and> stored_invocations cmds' ''/review'' = 5)"
proof -
  have c: "commands (load_command_data_default\<lparr>commands := Some review_deploy_commands\<rparr>)
      = Some review_deploy_commands" by simp
  have k: "stored_invocations review_deploy_commands ''/review'' = 4"
    by (simp add: stored_invocations_def review_deploy_commands_def get_invocations_def
        dict_get_def)
  then have n: "stored_invocations review_deploy_commands ''/review'' \<noteq> - 1" by simp
  from update_command_usage_frame [OF c n, of fixed_clock True]
  obtain data' cmds' where
    "update_command_usage fixed_clock ''/review'' True
       (load_command_data_default\<lparr>commands := Some review_deploy_commands\<rparr>) = Inr data'"
    "commands data' = Some cmds'"
    "\<forall>c. c \<noteq> ''/review'' \<longrightarrow> map_of cmds' c = map_of review_deploy_commands c"
    "stored_invocations cmds' ''/review'' = stored_invocations review_deploy_commands ''/review'' + 1"
    by blast
  moreover from this(3) have "map_of cmds' ''/deploy'' = map_of review_deploy_commands ''/deploy''"
    by simp
  ultimately show ?thesis using k n by auto
qed

lemma step_tracked:
  assumes "tracked data command k r" and "0 \<le> k"
  shows "\<exists>data'. update_command_usage now command s data = Inr data'
     \<and> tracked data' command (k + 1)
          (py_round ((r * of_int k + outcome_value s) / of_int (k + 1)) 2)"
proof -
  from assms(1) obtain cmds info where cmds: "commands data = Some cmds"
    and info: "map_of cmds command = Some info" "invocations info = Some k"
      "avgSuccessRate info = Some r"
    by (auto simp: tracked_def stored_info_def dict_get_def split: option.splits)
  have prior: "prior_info cmds command = info" using info(1) by (simp add: prior_info_def)
  have k: "get_invocations info = k" using info(2) by (simp add: get_invocations_def dict_get_def)
  have "get_invocations (prior_info cmds command) + 1 \<noteq> 0" using assms(2) prior k by simp
  from update_command_usage_result [OF cmds this, of now s]
  show ?thesis
    using prior k info(3)
    by (simp add: tracked_def stored_info_def dict_get_def update_conv' updated_info_def)
qed

lemma step_fresh:
  assumes "commands data = Some cmds" and "command \<notin> fst ` set cmds"
  shows "\<exists>data'. update_command_usage now command s data = Inr data'
     \<and> tracked data' command 1 (outcome_value s)"
proof -
  have none: "map_of cmds command = None" using assms(2) by (simp add: map_of_eq_None_iff)
  then have prior: "prior_info cmds command = fresh_command" by (simp add: prior_info_def)
  have k: "get_invocations fresh_command = 0"
    by (simp add: get_invocations_def dict_get_def fresh_command_def)
  have "get_invocations (prior_info cmds command) + 1 \<noteq> 0" using prior k by simp
  from update_command_usage_result [OF assms(1) this, of now s]
  have ret: "update_command_usage now command s data =
     Inr (data\<lparr>commands := Some (AList.update command (updated_info now s fresh_command) cmds),
               trackingPeriod := Some (updated_period now data)\<rparr>)"
    using prior by simp
  have "outcome_value s = of_int (if s then 1 else 0)" by (simp add: outcome_value_def)
  then have "py_round (outcome_value s) 2 = outcome_value s"
    by (simp only: py_round_of_int)
  then have "avgSuccessRate (updated_info now s fresh_command) = Some (outcome_value s)"
    by (simp add: updated_info_def k)
  moreover have "invocations (updated_info now s fresh_command) = Some 1"
    by (simp add: updated_info_def k)
  ultimately show ?thesis
    using ret by (simp add: tracked_def stored_info_def dict_get_def update_conv')
qed

lemma successes_Cons: "real (successes (s # ss)) = outcome_value s + real (successes ss)"
  by (simp add: successes_def outcome_value_def)

lemma run_tracked:
  assumes "tracked data command (int k) r"
    and "\<bar>real k * r - S\<bar> \<le> real (k * (k + 1)) / 400"
  shows "\<exists>data' r'. record_outcomes now command ss data = Inr data'
     \<and> tracked data' command (int (k + length ss)) r'
     \<and> \<bar>real (k + length ss) * r' - (S + real (successes ss))\<bar>
          \<le> real ((k + length ss) * (k + length ss + 1)) / 400"
  using assms
proof (induction ss arbitrary: data k r S)
  case Nil
  then show ?case by (auto simp: successes_def)
next
  case (Cons s ss)
  define x where "x = (r * of_int (int k) + outcome_value s) / of_int (int k + 1)"
  define r1 where "r1 = py_round x 2"
  from step_tracked [OF Cons.prems(1), of now s]
  obtain data1 where d1: "update_command_usage now command s data = Inr data1"
    and t1: "tracked data1 command (int (Suc k)) r1"
    by (auto simp: r1_def x_def add.commute)
  have near: "\<bar>r1 - x\<bar> \<le> 1 / 200"
    using py_round_near [of x 2] by (simp add: r1_def)
  have xk: "real (Suc k) * x = r * real k + outcome_value s"
    by (simp add: x_def add.commute)
  have "real (Suc k) * r1 - (S + outcome_value s) =
        real (Suc k) * (r1 - x) + (real k * r - S)"
    using xk by (simp add: algebra_simps)
  moreover have "\<bar>real (Suc k) * (r1 - x)\<bar> \<le> real (Suc k) / 200"
  proof -
    have "\<bar>real (Suc k) * (r1 - x)\<bar> = real (Suc k) * \<bar>r1 - x\<bar>"
      by (simp add: abs_mult)
    also have "\<dots> \<le> real (Suc k) * (1 / 200)"
      by (intro mult_left_mono near) simp
    finally show ?thesis by simp
  qed
  ultimately have "\<bar>real (Suc k) * r1 - (S + outcome_value s)\<bar>
      \<le> real (Suc k) / 200 + real (k * (k + 1)) / 400"
    using Cons.prems(2) by linarith
  also have "\<dots> = real (Suc k * (Suc k + 1)) / 400"
    by (simp add: field_simps)
  finally have e1: "\<bar>real (Suc k) * r1 - (S + outcome_value s)\<bar>
      \<le> real (Suc k * (Suc k + 1)) / 400" .
  from Cons.IH [OF t1 e1] obtain data' r' where
    run: "record_outcomes now command ss data1 = Inr data'"
    and t': "tracked data' command (int (Suc k + length ss)) r'"
    and e': "\<bar>real (Suc k + length ss) * r' - (S + outcome_value s + real (successes ss))\<bar>
          \<le> real ((Suc k + length ss) * (Suc k + length ss + 1)) / 400"
    by blast
  have "record_outcomes now command (s # ss) data = Inr data'"
    using d1 run by simp
  moreover have "tracked data' command (int (k + length (s # ss))) r'"
    using t' by simp
  moreover have "\<bar>real (k + length (s # ss)) * r' - (S + real (successes (s # ss)))\<bar>
          \<le> real ((k + length (s # ss)) * (k + length (s # ss) + 1)) / 400"
    using e' by (simp add: successes_Cons add.assoc)
  ultimately show ?case by blast
qed

text \<open>
  Claim C2, as stated, fails: for a fresh entity the first recorded success stores the
  rate 1.0, while the seeded closed form \<open>(0.5 + 1) / 2\<close> is 0.75.
\<close>

theorem fresh_entity_rate_counterexample:
  "record_outcomes fixed_clock ''/deploy'' [True] load_command_data_default =
     Inr (load_command_data_default
           \<lparr>commands := Some
              [(''/deploy'',
                \<lparr>invocations = Some 1, lastUsed = Some ''2026-01-01T00:00:00Z'',
                 avgSuccessRate = Some 1, recommendationsMade = None,
                 adoptionRate = None\<rparr>)],
            trackingPeriod := Some
              \<lparr>tp_start = ''2026-01-01T00:00:00Z'', tp_end = ''2026-01-01T00:00:00Z'',
               tp_days = 0\<rparr>\<rparr>)
   \<and> seeded_mean [True] = 0.75
   \<and> \<not> \<bar>1 - seeded_mean [True]\<bar> \<le> 0.005"
  by (simp add: load_command_data_default_def update_command_usage_def fixed_clock_def
      fresh_command_def get_invocations_def dict_get_def py_round_def seeded_mean_def
      successes_def Let_def)

text \<open>
  Claim C2, amended.  For a fresh entity the 0.5 default is not used: the entry is
  created with rate 0.0, and the prior rate is multiplied by a count of 0 at the first
  outcome.  After recording the outcomes \<open>s1..sn\<close> one at a time (\<open>n \<ge> 1\<close>) the entry has
  \<open>invocations = n\<close>, and its \<open>avgSuccessRate\<close> is the plain mean of the outcomes, the
  number of successes divided by \<open>n\<close>, up to the rounding to 2 decimals that every call
  adds: within \<open>(n + 1) / 400\<close>, and exactly 1.0 or 0.0 after the first outcome.
\<close>

theorem fresh_entity_rate:
  assumes "commands data = Some cmds" and "command \<notin> fst ` set cmds" and "ss \<noteq> []"
  shows "\<exists>data' info r. record_outcomes now command ss data = Inr data'
     \<and> stored_info data' command = Some info
     \<and> invocations info = Some (int (length ss))
     \<and> avgSuccessRate info = Some r
     \<and> \<bar>r - real (successes ss) / real (length ss)\<bar> \<le> real (length ss + 1) / 400
     \<and> (length ss = 1 \<longrightarrow> r = real (successes ss))"
proof -
  from assms(3) obtain s rest where ss: "ss = s # rest" by (cases ss) auto
  from step_fresh [OF assms(1,2), of now s]
  obtain data1 where d1: "update_command_usage now command s data = Inr data1"
    and t1: "tracked data1 command (int 1) (outcome_value s)" by auto
  have "\<bar>real 1 * outcome_value s - outcome_value s\<bar> \<le> real (1 * (1 + 1)) / 400" by simp
  from run_tracked [OF t1 this, of now rest]
  obtain data' r where run: "record_outcomes now command rest data1 = Inr data'"
    and t: "tracked data' command (int (1 + length rest)) r"
    and e: "\<bar>real (1 + length rest) * r - (outcome_value s + real (successes rest))\<bar>
          \<le> real ((1 + length rest) * (1 + length rest + 1)) / 400"
    by blast
  define n where "n = length ss"
  have n: "n = 1 + length rest" "0 < n" by (simp_all add: n_def ss)
  have ret: "record_outcomes now command ss data = Inr data'"
    using d1 run by (simp add: ss)
  from t obtain info where info: "stored_info data' command = Some info"
    "invocations info = Some (int n)" "avgSuccessRate info = Some r"
    by (auto simp: tracked_def n split: option.splits)
  have e2: "\<bar>real n * r - real (successes ss)\<bar> \<le> real (n * (n + 1)) / 400"
    using e by (simp add: n ss successes_Cons)
  have "\<bar>r - real (successes ss) / real n\<bar> = \<bar>real n * r - real (successes ss)\<bar> / real n"
    using n(2) by (simp add: field_simps abs_divide)
  also have "\<dots> \<le> (real (n * (n + 1)) / 400) / real n"
    using e2 by (intro divide_right_mono) simp_all
  also have "\<dots> = real (n + 1) / 400"
    using n(2) by (simp add: field_simps)
  finally have bound: "\<bar>r - real (successes ss) / real n\<bar> \<le> real (n + 1) / 400" .
  have first: "r = real (successes ss)" if "length ss = 1"
  proof -
    from that have "rest = []" by (simp add: ss)
    with run have "data' = data1" by simp
    with t1 t show ?thesis
      using \<open>rest = []\<close>
      by (auto simp: tracked_def ss successes_def outcome_value_def split: option.splits)
  qed
  show ?thesis
    using ret info bound first unfolding n_def by blast
qed

theorem fresh_entity_rate_witness:
  "commands load_command_data_default = Some []
   \<and> ''/deploy'' \<notin> fst ` set ([] :: (string \<times> command_info) list)
   \<and> [True, False, False] \<noteq> []
   \<and> (\<exists>data' info r.
         record_outcomes fixed_clock ''/deploy'' [True, False, False]
           load_command_data_default = Inr data'
       \<and> stored_info data' ''/deploy'' = Some info
       \<and> invocations info = Some 3
       \<and> avgSuccessRate info = Some r
       \<and> \<bar>r - 1 / 3\<bar> \<le> 4 / 400)"
proof -
  have c: "commands load_command_data_default = Some []"
    by (simp add: load_command_data_default_def)
  have f: "''/deploy'' \<notin> fst ` set ([] :: (string \<times> command_info) list)" by simp
  have ne: "[True, False, False] \<noteq> []" by simp
  from fresh_entity_rate [OF c f ne, of fixed_clock]
  show ?thesis using c by (simp add: successes_def)
qed

end
